theory Spec2Isabelle
  imports Complex_Main "HOL-Library.Log_Nat"
begin

section \<open>Pocket Scout v7: the adaptive decision engine\<close>

text \<open>
  The engines are JavaScript modules holding their state in closure variables. Each
  module becomes a record of its variables, each exported function a function from the
  old state to the result and the new state. \<open>Date.now()\<close> is an argument.

  JavaScript numbers are modelled as real numbers (exact arithmetic, no rounding and no
  overflow). Where a value may be missing (\<open>undefined\<close>) or \<open>NaN\<close>, the model has a
  case for it: see \<open>obs_value\<close> and \<open>jsnum\<close>. The Q-learning update takes the rounding
  of its arithmetic as a parameter, \<open>exact\<close> or \<open>fl64\<close> (double precision), because one
  of its properties depends on the rounding.
\<close>

subsection \<open>HMM engine (regime detection)\<close>

text \<open>The object \<open>STATES\<close> and the array \<open>STATE_NAMES\<close>.\<close>

datatype regime = TRENDING | RANGING | VOLATILE | CHAOTIC

primrec STATES :: "regime \<Rightarrow> nat" where
  "STATES TRENDING = 0"
| "STATES RANGING = 1"
| "STATES VOLATILE = 2"
| "STATES CHAOTIC = 3"

definition STATE_NAMES :: "regime list" where
  "STATE_NAMES = [TRENDING, RANGING, VOLATILE, CHAOTIC]"

definition HMM_MAX_HISTORY :: nat where
  "HMM_MAX_HISTORY = 100"

text \<open>\<open>arr.reduce((a, b) => a + b, 0)\<close>\<close>

definition reduce_add :: "'a::monoid_add list \<Rightarrow> 'a" where
  "reduce_add xs = foldl (+) 0 xs"

record history_entry =
  h_timestamp :: nat
  h_state :: regime
  h_confidence :: real
  h_adx :: real
  h_atrRatio :: real
  h_probs :: "real list"

record hmm_state =
  currentState :: regime
  stateHistory :: "history_entry list"
  transitionMatrix :: "real list list"

definition initialMatrix :: "real list list" where
  "initialMatrix =
     [[0.7, 0.2, 0.08, 0.02],
      [0.15, 0.75, 0.08, 0.02],
      [0.1, 0.15, 0.65, 0.1],
      [0.05, 0.1, 0.35, 0.5]]"

definition hmm_init :: hmm_state where
  "hmm_init = \<lparr>currentState = RANGING, stateHistory = [], transitionMatrix = initialMatrix\<rparr>"

definition calculateEmissionProbabilities :: "real \<Rightarrow> real \<Rightarrow> real \<Rightarrow> real \<Rightarrow> real list" where
  "calculateEmissionProbabilities adx atrRatio tickFrequency spreadEstimate =
     (let pT = (if adx > 25 then min 1 (adx / 50) * 0.9 else 0.1);
          pR = (if adx < 20 \<and> atrRatio < 0.015 then 0.8
                else if adx < 25 then 0.5 else 0.1);
          pV = (if atrRatio > 0.015 \<and> atrRatio < 0.03
                then min 1 (atrRatio / 0.03) * 0.85 else 0.15);
          pC = (if (adx < 15 \<and> atrRatio > 0.025) \<or> atrRatio > 0.035 then 0.9
                else if atrRatio > 0.02 then 0.4 else 0.05);
          probabilities = [pT, pR, pV, pC];
          sum = reduce_add probabilities
      in map (\<lambda>p. p / sum) probabilities)"

text \<open>
  A field of the \<open>indicators\<close> object: a number, or nothing that counts as one
  (\<open>undefined\<close>, \<open>null\<close>, \<open>NaN\<close>). \<open>falsy v\<close> is JavaScript's \<open>!v\<close>: a missing
  value, \<open>NaN\<close> and \<open>0\<close> are falsy, every other number (a negative one too) is not.
\<close>

datatype obs_value = Missing | Val real

primrec falsy :: "obs_value \<Rightarrow> bool" where
  "falsy Missing = True"
| "falsy (Val x) = (x = 0)"

primrec the_val :: "obs_value \<Rightarrow> real" where
  "the_val (Val x) = x"
| "the_val Missing = 0"

text \<open>The default of a destructured field: \<open>{ tickFrequency = 1 }\<close> applies to \<open>undefined\<close>.\<close>

primrec with_default :: "real \<Rightarrow> obs_value \<Rightarrow> real" where
  "with_default d Missing = d"
| "with_default d (Val x) = x"

record indicators =
  o_adx :: obs_value
  o_atr :: obs_value
  o_avgPrice :: obs_value
  o_tickFrequency :: obs_value
  o_spreadEstimate :: obs_value

record regime_result =
  r_state :: regime
  r_stateName :: regime
  r_confidence :: real
  r_stateProbs :: "real list"
  r_previousState :: "regime option"

text \<open>
  The selection loop of \<open>detectRegime\<close>: \<open>for (i = 0; i < 4; i++) if (probs[i] > maxProb)
  { maxProb = probs[i]; bestState = i }\<close>, as one step on the pair \<open>(maxProb, bestState)\<close>.
\<close>

definition select_step :: "real list \<Rightarrow> real \<times> regime \<Rightarrow> regime \<Rightarrow> real \<times> regime" where
  "select_step normalizedProbs acc i =
     (if normalizedProbs ! STATES i > fst acc then (normalizedProbs ! STATES i, i) else acc)"

definition push_history :: "history_entry list \<Rightarrow> history_entry \<Rightarrow> history_entry list" where
  "push_history h e = (let h' = h @ [e] in if length h' > HMM_MAX_HISTORY then tl h' else h')"

definition detectRegime :: "indicators \<Rightarrow> nat \<Rightarrow> hmm_state \<Rightarrow> regime_result \<times> hmm_state" where
  "detectRegime ind now st =
     (if falsy (o_adx ind) \<or> falsy (o_atr ind) \<or> falsy (o_avgPrice ind) then
        (\<lparr>r_state = currentState st, r_stateName = currentState st, r_confidence = 50,
          r_stateProbs = [0.25, 0.25, 0.25, 0.25], r_previousState = None\<rparr>, st)
      else
        let atrRatio = the_val (o_atr ind) / the_val (o_avgPrice ind);
            emissionProbs = calculateEmissionProbabilities (the_val (o_adx ind)) atrRatio
                              (with_default 1 (o_tickFrequency ind))
                              (with_default 0.0001 (o_spreadEstimate ind));
            posteriorProbs = map (\<lambda>nextState. emissionProbs ! STATES nextState
                                 * transitionMatrix st ! STATES (currentState st) ! STATES nextState)
                               STATE_NAMES;
            sum = reduce_add posteriorProbs;
            normalizedProbs = map (\<lambda>p. p / sum) posteriorProbs;
            (maxProb, bestState) = foldl (select_step normalizedProbs) (0, currentState st) STATE_NAMES;
            previousState = currentState st;
            entry = \<lparr>h_timestamp = now, h_state = bestState, h_confidence = maxProb * 100,
                      h_adx = the_val (o_adx ind), h_atrRatio = atrRatio, h_probs = normalizedProbs\<rparr>
        in (\<lparr>r_state = bestState, r_stateName = bestState, r_confidence = maxProb * 100,
              r_stateProbs = normalizedProbs, r_previousState = Some previousState\<rparr>,
            st\<lparr>currentState := bestState, stateHistory := push_history (stateHistory st) entry\<rparr>))"

text \<open>\<open>transitions[prevState][currState]++\<close> over consecutive history entries.\<close>

definition bump :: "nat list list \<Rightarrow> nat \<Rightarrow> nat \<Rightarrow> nat list list" where
  "bump t i j = t[i := (t ! i)[j := t ! i ! j + 1]]"

fun count_transitions :: "history_entry list \<Rightarrow> nat list list \<Rightarrow> nat list list" where
  "count_transitions (a # b # rest) t =
     count_transitions (b # rest) (bump t (STATES (h_state a)) (STATES (h_state b)))"
| "count_transitions _ t = t"

definition alpha :: real where
  "alpha = 0.1"

definition blend_row :: "real list \<Rightarrow> nat list \<Rightarrow> real list" where
  "blend_row row counts =
     (let rowSum = reduce_add counts in
      if rowSum > 0 then
        map (\<lambda>j. (1 - alpha) * row ! j + alpha * (real (counts ! j) / real rowSum)) [0..<4]
      else row)"

definition updateTransitionMatrix :: "hmm_state \<Rightarrow> hmm_state" where
  "updateTransitionMatrix st =
     (if length (stateHistory st) < 20 then st
      else
        let transitions = count_transitions (stateHistory st) (replicate 4 (replicate 4 0))
        in st\<lparr>transitionMatrix :=
                 map (\<lambda>i. blend_row (transitionMatrix st ! i) (transitions ! i)) [0..<4]\<rparr>)"

definition reset :: "hmm_state \<Rightarrow> hmm_state" where
  "reset st = st\<lparr>currentState := RANGING, stateHistory := []\<rparr>"

text \<open>The calls a client can make on the module that change its state, and a run of them.\<close>

datatype hmm_call = DetectRegime indicators nat | UpdateTransitionMatrix | Reset

primrec hmm_step :: "hmm_state \<Rightarrow> hmm_call \<Rightarrow> hmm_state" where
  "hmm_step st (DetectRegime ind now) = snd (detectRegime ind now st)"
| "hmm_step st UpdateTransitionMatrix = updateTransitionMatrix st"
| "hmm_step st Reset = reset st"

definition hmm_run :: "hmm_call list \<Rightarrow> hmm_state" where
  "hmm_run calls = foldl hmm_step hmm_init calls"

text \<open>
  What every reachable transition matrix satisfies: four rows of four positive entries,
  each row summing to one; and the shape of the table of transition counts.
\<close>

definition row_ok :: "real list \<Rightarrow> bool" where
  "row_ok r = (length r = 4 \<and> reduce_add r = 1 \<and> (\<forall>x\<in>set r. 0 < x))"

definition tm_ok :: "real list list \<Rightarrow> bool" where
  "tm_ok m = (length m = 4 \<and> (\<forall>r\<in>set m. row_ok r))"

definition counts_ok :: "nat list list \<Rightarrow> bool" where
  "counts_ok t = (length t = 4 \<and> (\<forall>r\<in>set t. length r = 4))"

text \<open>Observations used below: the spec's scenario, a tie, and a negative reading.\<close>

definition scenario :: indicators where
  "scenario = \<lparr>o_adx = Val 30, o_atr = Val 0.008, o_avgPrice = Val 1,
                o_tickFrequency = Missing, o_spreadEstimate = Missing\<rparr>"

definition tie_obs :: indicators where
  "tie_obs = \<lparr>o_adx = Val (250 / 9), o_atr = Val 0.008, o_avgPrice = Val 1,
               o_tickFrequency = Missing, o_spreadEstimate = Missing\<rparr>"

definition negative_obs :: indicators where
  "negative_obs = \<lparr>o_adx = Val (- 5), o_atr = Val 0.01, o_avgPrice = Val 1,
                    o_tickFrequency = Missing, o_spreadEstimate = Missing\<rparr>"

definition zero_obs :: indicators where
  "zero_obs = \<lparr>o_adx = Val 0, o_atr = Val 0.01, o_avgPrice = Val 1,
                o_tickFrequency = Missing, o_spreadEstimate = Missing\<rparr>"

subsection \<open>Numbers that may be \<open>NaN\<close>\<close>

text \<open>
  Some computations meet \<open>undefined\<close>: reading an array past its end or a property that
  an object does not have gives \<open>undefined\<close>, and arithmetic on \<open>undefined\<close> gives \<open>NaN\<close>,
  which every later operation keeps. \<open>Num x\<close> is the number \<open>x\<close>.
\<close>

datatype jsnum = Num real | NaN

fun js_add :: "jsnum \<Rightarrow> jsnum \<Rightarrow> jsnum" where
  "js_add (Num x) (Num y) = Num (x + y)"
| "js_add _ _ = NaN"

fun js_sub :: "jsnum \<Rightarrow> jsnum \<Rightarrow> jsnum" where
  "js_sub (Num x) (Num y) = Num (x - y)"
| "js_sub _ _ = NaN"

fun js_mul :: "jsnum \<Rightarrow> jsnum \<Rightarrow> jsnum" where
  "js_mul (Num x) (Num y) = Num (x * y)"
| "js_mul _ _ = NaN"

text \<open>
  Division by zero gives \<open>Infinity\<close> or \<open>NaN\<close> in JavaScript, no number; the only divisor
  below is the sum of exponentials of the network's \<open>softmax\<close>.
\<close>

fun js_div :: "jsnum \<Rightarrow> jsnum \<Rightarrow> jsnum" where
  "js_div (Num x) (Num y) = (if y = 0 then NaN else Num (x / y))"
| "js_div _ _ = NaN"

text \<open>\<open>Math.max(a, b)\<close>: \<open>NaN\<close> when an argument is \<open>NaN\<close>.\<close>

fun js_max :: "jsnum \<Rightarrow> jsnum \<Rightarrow> jsnum" where
  "js_max (Num x) (Num y) = Num (max x y)"
| "js_max _ _ = NaN"

fun js_exp :: "jsnum \<Rightarrow> jsnum" where
  "js_exp (Num x) = Num (exp x)"
| "js_exp NaN = NaN"

text \<open>\<open>a > b\<close>: false when an operand is \<open>NaN\<close>.\<close>

fun js_gt :: "jsnum \<Rightarrow> jsnum \<Rightarrow> bool" where
  "js_gt (Num x) (Num y) = (x > y)"
| "js_gt _ _ = False"

subsection \<open>RL engine (Q-learning)\<close>

datatype action = BUY | SELL

text \<open>
  The Q-table is an object written as an object literal, keyed by regime name. Each row
  is an object with the two keys \<open>BUY\<close> and \<open>SELL\<close>, read and written as \<open>row[action]\<close>;
  an entry is a number or \<open>NaN\<close>.
\<close>

type_synonym qrow = "action \<Rightarrow> jsnum"

text \<open>
  \<open>qTable[name]\<close> for a name that is not a key of the table is looked up in the prototype
  of the table, \<open>Object.prototype\<close>. For the names below it is a built-in object
  (\<open>constructor\<close> is the function \<open>Object\<close>, \<open>__proto__\<close> is \<open>Object.prototype\<close> itself, each
  other name is a method of \<open>Object.prototype\<close>), for every other name it is \<open>undefined\<close>.
\<close>

definition Object_prototype_names :: "string list" where
  "Object_prototype_names =
     [''constructor'', ''__defineGetter__'', ''__defineSetter__'', ''hasOwnProperty'',
      ''__lookupGetter__'', ''__lookupSetter__'', ''isPrototypeOf'', ''propertyIsEnumerable'',
      ''toString'', ''valueOf'', ''__proto__'', ''toLocaleString'']"

text \<open>
  An event of the reward history; \<open>oldQ\<close> is \<open>None\<close> when the value read was \<open>undefined\<close>.
\<close>

record reward_event =
  e_timestamp :: nat
  e_regime :: string
  e_action :: action
  e_reward :: real
  e_oldQ :: "jsnum option"
  e_newQ :: jsnum

text \<open>
  The state of the module, and with it the properties \<open>BUY\<close> and \<open>SELL\<close> of the built-in
  objects, which the module can reach through the table: \<open>builtinProps st name action\<close> is
  the own property \<open>action\<close> of the built-in object \<open>qTable[name]\<close>, \<open>None\<close> when the object
  has no such property. No built-in object has one before the module assigns it.
\<close>

record rl_state =
  qTable :: "string \<rightharpoonup> qrow"
  builtinProps :: "string \<Rightarrow> action \<Rightarrow> jsnum option"
  totalUpdates :: nat
  rewardHistory :: "reward_event list"

definition LEARNING_RATE :: real where
  "LEARNING_RATE = 0.1"

definition DISCOUNT_FACTOR :: real where
  "DISCOUNT_FACTOR = 0.9"

definition RL_MAX_HISTORY :: nat where
  "RL_MAX_HISTORY = 500"

definition initialQTable :: "string \<rightharpoonup> qrow" where
  "initialQTable =
     [''TRENDING'' \<mapsto> (\<lambda>a. Num 0.5), ''RANGING'' \<mapsto> (\<lambda>a. Num 0.5),
      ''VOLATILE'' \<mapsto> (\<lambda>a. Num 0.5), ''CHAOTIC'' \<mapsto> (\<lambda>a. Num 0.5)]"

definition rl_init :: rl_state where
  "rl_init = \<lparr>qTable = initialQTable, builtinProps = (\<lambda>name action. None),
               totalUpdates = 0, rewardHistory = []\<rparr>"

text \<open>
  Two ways to round the result of an arithmetic operation. \<open>exact\<close> does not round.
  \<open>fl64\<close> rounds to the nearest number with 53 significant bits, ties to the even one,
  as IEEE 754 double precision does for every result between the smallest normal number
  and the largest finite one (overflow and subnormal numbers are not modelled; every
  non-zero value computed below has a magnitude between \<open>2^-60\<close> and 16).
\<close>

definition exact :: "real \<Rightarrow> real" where
  "exact x = x"

definition pow2 :: "int \<Rightarrow> real" where
  "pow2 e = 2 powr of_int e"

definition round_half_even :: "real \<Rightarrow> int" where
  "round_half_even x =
     (let f = \<lfloor>x\<rfloor> in
      if x - of_int f < 1 / 2 then f
      else if 1 / 2 < x - of_int f then f + 1
      else if even f then f else f + 1)"

definition fl64 :: "real \<Rightarrow> real" where
  "fl64 x = (if x = 0 then 0
             else let e = \<lfloor>log 2 \<bar>x\<bar>\<rfloor> - 52 in of_int (round_half_even (x / pow2 e)) * pow2 e)"

text \<open>
  The update formula \<open>currentQ + LEARNING_RATE * (reward + DISCOUNT_FACTOR * maxNextQ - currentQ)\<close>
  in JavaScript's order of evaluation, each constant and each result rounded by \<open>rnd\<close>.
\<close>

definition q_update :: "(real \<Rightarrow> real) \<Rightarrow> real \<Rightarrow> real \<Rightarrow> real \<Rightarrow> real" where
  "q_update rnd currentQ reward maxNextQ =
     rnd (currentQ + rnd (rnd LEARNING_RATE
            * rnd (rnd (reward + rnd (rnd DISCOUNT_FACTOR * maxNextQ)) - currentQ)))"

text \<open>
  The formula on the values the code reads: a number when \<open>currentQ\<close> and \<open>maxNextQ\<close> are
  numbers, \<open>NaN\<close> when one of them is \<open>NaN\<close>.
\<close>

fun newQ_of :: "(real \<Rightarrow> real) \<Rightarrow> jsnum \<Rightarrow> real \<Rightarrow> jsnum \<Rightarrow> jsnum" where
  "newQ_of rnd (Num currentQ) reward (Num maxNextQ) = Num (q_update rnd currentQ reward maxNextQ)"
| "newQ_of rnd _ reward _ = NaN"

text \<open>
  The object \<open>qTable[name]\<close>: a row of the table, a built-in object inherited from
  \<open>Object.prototype\<close>, or \<open>None\<close> for \<open>undefined\<close>. Rows and built-in objects are truthy,
  \<open>undefined\<close> is falsy.
\<close>

datatype target = Row qrow | Builtin string

definition qTable_get :: "rl_state \<Rightarrow> string \<Rightarrow> target option" where
  "qTable_get st name =
     (case qTable st name of
        Some row \<Rightarrow> Some (Row row)
      | None \<Rightarrow> if name \<in> set Object_prototype_names then Some (Builtin name) else None)"

text \<open>
  \<open>obj[action]\<close>, \<open>None\<close> for \<open>undefined\<close>. A built-in object without the property inherits it
  from \<open>Object.prototype\<close>, the end of every prototype chain.
\<close>

definition prop_get :: "rl_state \<Rightarrow> target \<Rightarrow> action \<Rightarrow> jsnum option" where
  "prop_get st obj action =
     (case obj of
        Row row \<Rightarrow> Some (row action)
      | Builtin name \<Rightarrow>
          (case builtinProps st name action of
             Some v \<Rightarrow> Some v
           | None \<Rightarrow> if name = ''__proto__'' then None else builtinProps st ''__proto__'' action))"

text \<open>\<open>qTable[name][action] = v\<close>, where \<open>obj\<close> is \<open>qTable[name]\<close>.\<close>

definition prop_set :: "rl_state \<Rightarrow> string \<Rightarrow> target \<Rightarrow> action \<Rightarrow> jsnum \<Rightarrow> rl_state" where
  "prop_set st name obj action v =
     (case obj of
        Row row \<Rightarrow> st\<lparr>qTable := (qTable st)(name \<mapsto> row(action := v))\<rparr>
      | Builtin b \<Rightarrow> st\<lparr>builtinProps := (builtinProps st)(b := (builtinProps st b)(action \<mapsto> v))\<rparr>)"

text \<open>\<open>undefined\<close> as an operand of arithmetic or of \<open>Math.max\<close> counts as \<open>NaN\<close>.\<close>

definition to_number :: "jsnum option \<Rightarrow> jsnum" where
  "to_number v = (case v of None \<Rightarrow> NaN | Some x \<Rightarrow> x)"



text \<open>
  \<open>updateQValue\<close> returns, or throws a \<open>TypeError\<close>: its last statement logs
  \<open>currentQ.toFixed(3)\<close>, which throws when \<open>currentQ\<close> is \<open>undefined\<close>, after the state has
  been updated. \<open>Inr st'\<close> is a return and \<open>Inl (TypeError, st')\<close> a throw, both leaving the
  state \<open>st'\<close>. Saving the table to \<open>localStorage\<close> and the console are not modelled.
\<close>

datatype rl_error = TypeError

type_synonym rl_result = "(rl_error \<times> rl_state) + rl_state"

definition state_after :: "rl_result \<Rightarrow> rl_state" where
  "state_after r = (case r of Inl (e, st) \<Rightarrow> st | Inr st \<Rightarrow> st)"

definition updateQValue ::
  "(real \<Rightarrow> real) \<Rightarrow> string \<Rightarrow> action \<Rightarrow> real \<Rightarrow> string \<Rightarrow> nat \<Rightarrow> rl_state \<Rightarrow> rl_result" where
  "updateQValue rnd regime action reward nextRegime now st =
     (case qTable_get st regime of
        None \<Rightarrow> Inr st
      | Some obj \<Rightarrow>
         (case qTable_get st nextRegime of
            None \<Rightarrow> Inr st
          | Some nextObj \<Rightarrow>
              let currentQ = prop_get st obj action;
                  maxNextQ = js_max (to_number (prop_get st nextObj BUY))
                                    (to_number (prop_get st nextObj SELL));
                  newQ = newQ_of rnd (to_number currentQ) reward maxNextQ;
                  h = rewardHistory st @ [\<lparr>e_timestamp = now, e_regime = regime, e_action = action,
                                           e_reward = reward, e_oldQ = currentQ, e_newQ = newQ\<rparr>];
                  st' = (prop_set st regime obj action newQ)
                          \<lparr>totalUpdates := totalUpdates st + 1,
                           rewardHistory := (if length h > RL_MAX_HISTORY then tl h else h)\<rparr>
              in if currentQ = None then Inl (TypeError, st') else Inr st'))"

text \<open>
  \<open>n\<close> calls \<open>updateQValue(regime, action, +1, regime)\<close> from the initial table; \<open>clock k\<close>
  is what \<open>Date.now()\<close> returns in call \<open>k\<close>.
\<close>

primrec repeat_update :: "(real \<Rightarrow> real) \<Rightarrow> string \<Rightarrow> action \<Rightarrow> (nat \<Rightarrow> nat) \<Rightarrow> nat \<Rightarrow> rl_state" where
  "repeat_update rnd regime action clock 0 = rl_init"
| "repeat_update rnd regime action clock (Suc n) =
     state_after (updateQValue rnd regime action 1 regime (clock n)
                    (repeat_update rnd regime action clock n))"

definition tick :: "nat \<Rightarrow> nat" where
  "tick k = 1000 * k"

text \<open>The entry of the table for a regime and action, \<open>None\<close> when the table has no such row.\<close>

definition q_of :: "rl_state \<Rightarrow> string \<Rightarrow> action \<Rightarrow> jsnum option" where
  "q_of st regime action = (case qTable st regime of None \<Rightarrow> None | Some row \<Rightarrow> Some (row action))"

text \<open>
  The updated Q-value after \<open>n\<close> of these calls. The row of the regime holds it next to
  the untouched 0.5 of the other action, so the maximum over the row is \<open>max q 0.5\<close>.
\<close>

primrec qseq :: "(real \<Rightarrow> real) \<Rightarrow> nat \<Rightarrow> real" where
  "qseq rnd 0 = 0.5"
| "qseq rnd (Suc n) = q_update rnd (qseq rnd n) 1 (max (qseq rnd n) 0.5)"

subsection \<open>Computing with \<open>fl64\<close>\<close>

text \<open>
  A pair \<open>(m, e)\<close> of integers stands for the number \<open>m * 2^e\<close>. The functions below
  compute the rounded sum, difference and product of two such numbers on the integers,
  so that a run of the Q-update in double precision can be evaluated.
\<close>

definition val :: "int \<times> int \<Rightarrow> real" where
  "val p = of_int (fst p) * pow2 (snd p)"

primrec num_len :: "num \<Rightarrow> nat" where
  "num_len num.One = 1"
| "num_len (num.Bit0 n) = Suc (num_len n)"
| "num_len (num.Bit1 n) = Suc (num_len n)"

definition ibitlen :: "int \<Rightarrow> nat" where
  "ibitlen a = nat (bitlen a)"

definition f_round :: "int \<times> int \<Rightarrow> int \<times> int" where
  "f_round p = (case p of (m, e) \<Rightarrow>
     let n = ibitlen \<bar>m\<bar> in
     if n \<le> 53 then (m, e)
     else let k = n - 53; q = drop_bit k m; r = m - push_bit k q; h = push_bit (k - 1) 1
          in (if r < h \<or> (r = h \<and> even q) then q else q + 1, e + int k))"

definition f_add :: "int \<times> int \<Rightarrow> int \<times> int \<Rightarrow> int \<times> int" where
  "f_add a b = (case (a, b) of ((m1, e1), (m2, e2)) \<Rightarrow>
     let e = min e1 e2 in f_round (push_bit (nat (e1 - e)) m1 + push_bit (nat (e2 - e)) m2, e))"

definition f_sub :: "int \<times> int \<Rightarrow> int \<times> int \<Rightarrow> int \<times> int" where
  "f_sub a b = (case (a, b) of ((m1, e1), (m2, e2)) \<Rightarrow>
     let e = min e1 e2 in f_round (push_bit (nat (e1 - e)) m1 - push_bit (nat (e2 - e)) m2, e))"

definition f_mul :: "int \<times> int \<Rightarrow> int \<times> int \<Rightarrow> int \<times> int" where
  "f_mul a b = (case (a, b) of ((m1, e1), (m2, e2)) \<Rightarrow> f_round (m1 * m2, e1 + e2))"

definition f_less :: "int \<times> int \<Rightarrow> int \<times> int \<Rightarrow> bool" where
  "f_less a b = (case (a, b) of ((m1, e1), (m2, e2)) \<Rightarrow>
     let e = min e1 e2 in push_bit (nat (e1 - e)) m1 < push_bit (nat (e2 - e)) m2)"

definition f_max :: "int \<times> int \<Rightarrow> int \<times> int \<Rightarrow> int \<times> int" where
  "f_max a b = (if f_less a b then b else a)"

text \<open>The doubles nearest to 0.1 and to 0.9.\<close>

definition c01 :: "int \<times> int" where
  "c01 = (3602879701896397, - 55)"

definition c09 :: "int \<times> int" where
  "c09 = (8106479329266893, - 53)"

text \<open>\<open>q_update fl64 q 1 (max q 0.5)\<close> on pairs.\<close>

definition f_update :: "int \<times> int \<Rightarrow> int \<times> int" where
  "f_update q = f_add q (f_mul c01 (f_sub (f_add (1, 0) (f_mul c09 (f_max q (1, - 1)))) q))"

text \<open>\<open>n\<close> updates, as long as each one strictly increases the value.\<close>

fun rising :: "nat \<Rightarrow> int \<times> int \<Rightarrow> (int \<times> int) option" where
  "rising 0 q = Some q"
| "rising (Suc n) q = (let q' = f_update q in if f_less q q' then rising n q' else None)"

text \<open>The value at which the Q-update stalls in double precision, \<open>9.999999999999908\<close>.\<close>

definition q_stall :: "int \<times> int" where
  "q_stall = (5629499534213068, - 49)"

subsection \<open>Backtesting engine\<close>

text \<open>\<open>signal.result\<close> is \<open>'WIN'\<close>, \<open>'LOSS'\<close> or something else (\<open>null\<close> while pending).\<close>

datatype outcome = WIN | LOSS | Pending

record signal =
  sig_result :: outcome
  sig_regime :: "string option"

record tally =
  t_wins :: nat
  t_losses :: nat

record backtest_acc =
  a_wins :: nat
  a_losses :: nat
  a_totalProfit :: real
  a_maxDrawdown :: real
  a_peak :: real
  a_equity :: real
  a_equityCurve :: "real list"
  a_regimePerformance :: "string \<rightharpoonup> tally"

record backtest_results =
  totalSignals :: nat
  totalTrades :: nat
  wins :: nat
  losses :: nat
  winRate :: real
  profitFactor :: real
  netProfit :: real
  roi :: real
  maxDrawdown :: real
  equityCurve :: "real list"
  regimePerformance :: "string \<rightharpoonup> tally"
  regimeWinRates :: "string \<rightharpoonup> real option"
  startBalance :: real
  endBalance :: real

datatype backtest_error = NoSignals

definition tradeSize :: real where
  "tradeSize = 10"

definition payoutRatio :: real where
  "payoutRatio = 0.85"

definition backtest_start :: backtest_acc where
  "backtest_start =
     \<lparr>a_wins = 0, a_losses = 0, a_totalProfit = 0, a_maxDrawdown = 0, a_peak = 0,
      a_equity = 1000, a_equityCurve = [1000],
      a_regimePerformance =
        [''TRENDING'' \<mapsto> \<lparr>t_wins = 0, t_losses = 0\<rparr>, ''RANGING'' \<mapsto> \<lparr>t_wins = 0, t_losses = 0\<rparr>,
         ''VOLATILE'' \<mapsto> \<lparr>t_wins = 0, t_losses = 0\<rparr>, ''CHAOTIC'' \<mapsto> \<lparr>t_wins = 0, t_losses = 0\<rparr>]\<rparr>"

text \<open>\<open>if (signal.regime && regimePerformance[signal.regime]) regimePerformance[signal.regime].wins++\<close>\<close>

definition tally_regime :: "(tally \<Rightarrow> tally) \<Rightarrow> string option \<Rightarrow> (string \<rightharpoonup> tally) \<Rightarrow> (string \<rightharpoonup> tally)" where
  "tally_regime f r perf =
     (case r of
        None \<Rightarrow> perf
      | Some k \<Rightarrow> (if k = [] then perf
                  else case perf k of None \<Rightarrow> perf | Some t \<Rightarrow> perf(k \<mapsto> f t)))"

text \<open>The body of \<open>signals.forEach\<close>: the trade, the equity curve, the drawdown.\<close>

definition backtest_step :: "backtest_acc \<Rightarrow> signal \<Rightarrow> backtest_acc" where
  "backtest_step acc s =
     (let acc1 =
            (if sig_result s = WIN then
               acc\<lparr>a_wins := a_wins acc + 1,
                   a_totalProfit := a_totalProfit acc + tradeSize * payoutRatio,
                   a_equity := a_equity acc + tradeSize * payoutRatio,
                   a_regimePerformance :=
                     tally_regime (\<lambda>t. t\<lparr>t_wins := t_wins t + 1\<rparr>) (sig_regime s) (a_regimePerformance acc)\<rparr>
             else if sig_result s = LOSS then
               acc\<lparr>a_losses := a_losses acc + 1,
                   a_totalProfit := a_totalProfit acc - tradeSize,
                   a_equity := a_equity acc - tradeSize,
                   a_regimePerformance :=
                     tally_regime (\<lambda>t. t\<lparr>t_losses := t_losses t + 1\<rparr>) (sig_regime s) (a_regimePerformance acc)\<rparr>
             else acc);
          acc2 = acc1\<lparr>a_equityCurve := a_equityCurve acc1 @ [a_equity acc1]\<rparr>;
          acc3 = (if a_equity acc2 > a_peak acc2 then acc2\<lparr>a_peak := a_equity acc2\<rparr> else acc2);
          drawdown = ((a_peak acc3 - a_equity acc3) / a_peak acc3) * 100
      in if drawdown > a_maxDrawdown acc3 then acc3\<lparr>a_maxDrawdown := drawdown\<rparr> else acc3)"

text \<open>
  \<open>runBacktest\<close> returns the error object for an empty list, else the results, which it
  also appends to the module's \<open>backtestResults\<close> with the time.
\<close>

definition runBacktest ::
  "signal list \<Rightarrow> nat \<Rightarrow> (nat \<times> backtest_results) list
     \<Rightarrow> (backtest_error + backtest_results) \<times> (nat \<times> backtest_results) list" where
  "runBacktest signals now backtestResults =
     (if signals = [] then (Inl NoSignals, backtestResults)
      else
        let acc = foldl backtest_step backtest_start signals;
            totalTrades = a_wins acc + a_losses acc;
            results =
              \<lparr>totalSignals = length signals,
               totalTrades = totalTrades,
               wins = a_wins acc,
               losses = a_losses acc,
               winRate = (if totalTrades > 0 then (real (a_wins acc) / real totalTrades) * 100 else 0),
               profitFactor =
                 (if a_losses acc > 0
                  then (real (a_wins acc) * tradeSize * payoutRatio) / (real (a_losses acc) * tradeSize)
                  else 0),
               netProfit = a_equity acc - 1000,
               roi = ((a_equity acc - 1000) / 1000) * 100,
               maxDrawdown = a_maxDrawdown acc,
               equityCurve = a_equityCurve acc,
               regimePerformance = a_regimePerformance acc,
               regimeWinRates =
                 (\<lambda>k. case a_regimePerformance acc k of
                        None \<Rightarrow> None
                      | Some t \<Rightarrow>
                          Some (if t_wins t + t_losses t > 0
                                then Some ((real (t_wins t) / real (t_wins t + t_losses t)) * 100)
                                else None)),
               startBalance = 1000,
               endBalance = a_equity acc\<rparr>
        in (Inr results, backtestResults @ [(now, results)]))"

text \<open>
  The spec's formula for the profit factor, \<open>(wins*stake*payout) / (losses*stake)\<close>, as a
  number: \<open>None\<close> where the divisor is zero (JavaScript's division gives \<open>Infinity\<close> or
  \<open>NaN\<close> there, no finite number).
\<close>

definition profit_factor_formula :: "nat \<Rightarrow> nat \<Rightarrow> real option" where
  "profit_factor_formula w l =
     (if real l * tradeSize = 0 then None
      else Some ((real w * tradeSize * payoutRatio) / (real l * tradeSize)))"

definition count_result :: "outcome \<Rightarrow> signal list \<Rightarrow> nat" where
  "count_result r signals = length (filter (\<lambda>s. sig_result s = r) signals)"

definition one_win :: "signal list" where
  "one_win = [\<lparr>sig_result = WIN, sig_regime = Some ''TRENDING''\<rparr>]"

definition win_and_losses :: "signal list" where
  "win_and_losses =
     [\<lparr>sig_result = WIN, sig_regime = Some ''TRENDING''\<rparr>,
      \<lparr>sig_result = LOSS, sig_regime = Some ''RANGING''\<rparr>,
      \<lparr>sig_result = LOSS, sig_regime = None\<rparr>]"

subsection \<open>AI engine (pure JavaScript neural network)\<close>

text \<open>\<open>vector[i]\<close> as an operand of arithmetic: \<open>undefined\<close> past the end counts as \<open>NaN\<close>.\<close>

definition item :: "jsnum list \<Rightarrow> nat \<Rightarrow> jsnum" where
  "item v i = (if i < length v then v ! i else NaN)"

text \<open>\<open>arr.map((v, i) => f(v, i))\<close>\<close>

definition mapi :: "('a \<Rightarrow> nat \<Rightarrow> 'b) \<Rightarrow> 'a list \<Rightarrow> 'b list" where
  "mapi f xs = map (\<lambda>(v, i). f v i) (zip xs [0..<length xs])"

record SimpleNN =
  w1 :: "jsnum list list"
  b1 :: "jsnum list"
  w2 :: "jsnum list list"
  b2 :: "jsnum list"
  w3 :: "jsnum list list"
  b3 :: "jsnum list"
  learningRate :: real

text \<open>
  \<open>randomMatrix(rows, cols)\<close>: \<open>rows\<close> arrays of \<open>cols\<close> entries \<open>(Math.random() - 0.5) * 0.2\<close>;
  \<open>rnd i j\<close> is what \<open>Math.random()\<close> returns for entry \<open>j\<close> of row \<open>i\<close>.
\<close>

definition randomMatrix :: "nat \<Rightarrow> nat \<Rightarrow> (nat \<Rightarrow> nat \<Rightarrow> real) \<Rightarrow> jsnum list list" where
  "randomMatrix rows cols rnd =
     map (\<lambda>i. map (\<lambda>j. Num ((rnd i j - 0.5) * 0.2)) [0..<cols]) [0..<rows]"

text \<open>The constructor; \<open>r1\<close> to \<open>r6\<close> are the random draws of its six \<open>randomMatrix\<close> calls.\<close>

definition new_SimpleNN ::
  "nat \<Rightarrow> nat \<Rightarrow> nat \<Rightarrow> nat \<Rightarrow> (nat \<Rightarrow> nat \<Rightarrow> real) \<Rightarrow> (nat \<Rightarrow> nat \<Rightarrow> real) \<Rightarrow> (nat \<Rightarrow> nat \<Rightarrow> real)
     \<Rightarrow> (nat \<Rightarrow> nat \<Rightarrow> real) \<Rightarrow> (nat \<Rightarrow> nat \<Rightarrow> real) \<Rightarrow> (nat \<Rightarrow> nat \<Rightarrow> real) \<Rightarrow> SimpleNN" where
  "new_SimpleNN inputSize hiddenSize1 hiddenSize2 outputSize r1 r2 r3 r4 r5 r6 =
     \<lparr>w1 = randomMatrix inputSize hiddenSize1 r1,
      b1 = hd (randomMatrix 1 hiddenSize1 r2),
      w2 = randomMatrix hiddenSize1 hiddenSize2 r3,
      b2 = hd (randomMatrix 1 hiddenSize2 r4),
      w3 = randomMatrix hiddenSize2 outputSize r5,
      b3 = hd (randomMatrix 1 outputSize r6),
      learningRate = 0.001\<rparr>"

definition relu :: "jsnum \<Rightarrow> jsnum" where
  "relu x = js_max (Num 0) x"

text \<open>\<open>row.reduce((sum, val, i) => sum + val * vector[i], 0)\<close>\<close>

definition dot_row :: "jsnum list \<Rightarrow> jsnum list \<Rightarrow> jsnum" where
  "dot_row row vector =
     foldl (\<lambda>sum (val, i). js_add sum (js_mul val (item vector i))) (Num 0) (zip row [0..<length row])"

definition matmul :: "jsnum list list \<Rightarrow> jsnum list \<Rightarrow> jsnum list" where
  "matmul matrix vector = map (\<lambda>row. dot_row row vector) matrix"

text \<open>
  \<open>softmax\<close>: \<open>Math.max(...arr)\<close> folds \<open>js_max\<close> over the array (for the empty array the
  maps below are empty whatever the maximum is).
\<close>

definition softmax :: "jsnum list \<Rightarrow> jsnum list" where
  "softmax arr =
     (case arr of
        [] \<Rightarrow> []
      | x # xs \<Rightarrow>
          let mx = foldl js_max x xs;
              exps = map (\<lambda>x. js_exp (js_sub x mx)) arr;
              sum = foldl js_add (Num 0) exps
          in map (\<lambda>x. js_div x sum) exps)"

definition forward :: "SimpleNN \<Rightarrow> jsnum list \<Rightarrow> jsnum list \<times> jsnum list \<times> jsnum list" where
  "forward nn input =
     (let h1 = mapi (\<lambda>v i. relu (js_add v (item (b1 nn) i))) (matmul (w1 nn) input);
          h2 = mapi (\<lambda>v i. relu (js_add v (item (b2 nn) i))) (matmul (w2 nn) h1);
          output = mapi (\<lambda>v i. js_add v (item (b3 nn) i)) (matmul (w3 nn) h2)
      in (h1, h2, softmax output))"

definition nn_predict :: "SimpleNN \<Rightarrow> jsnum list \<Rightarrow> jsnum list" where
  "nn_predict nn input = snd (snd (forward nn input))"

text \<open>The indicators passed to the AI engine (numbers), and a training sample.\<close>

record ai_indicators =
  i_rsi :: real
  i_adx :: real
  i_atr :: real
  i_williamsR :: real
  i_cci :: real

record training_sample =
  features :: "real list"
  label :: "real list"

text \<open>
  The module's variables. The model is a \<open>SimpleNN\<close> here and a TensorFlow.js model in
  the other variant of the engine, whose type is a parameter.
\<close>

record 'm ai_engine =
  model :: "'m option"
  isModelReady :: bool
  trainingData :: "training_sample list"
  signalCount :: nat

definition RETRAIN_INTERVAL :: nat where
  "RETRAIN_INTERVAL = 50"

definition MAX_TRAINING_DATA :: nat where
  "MAX_TRAINING_DATA = 500"

definition normalizeFeatures :: "real \<Rightarrow> real \<Rightarrow> real \<Rightarrow> real \<Rightarrow> real \<Rightarrow> real list" where
  "normalizeFeatures rsi adx atr williamsR cci =
     [rsi / 100, adx / 100, min (atr * 100) 1, (williamsR + 100) / 100, (cci + 200) / 400]"

record prediction =
  p_action :: action
  buyProb :: jsnum
  sellProb :: jsnum
  p_confidence :: jsnum

text \<open>\<open>predict\<close> returns \<open>null\<close> (here \<open>None\<close>) when the model is not ready.\<close>

definition predict :: "SimpleNN ai_engine \<Rightarrow> ai_indicators \<Rightarrow> prediction option" where
  "predict eng ind =
     (if \<not> isModelReady eng \<or> model eng = None then None
      else
        let features = normalizeFeatures (i_rsi ind) (i_adx ind) (i_atr ind) (i_williamsR ind) (i_cci ind);
            probabilities = nn_predict (the (model eng)) (map Num features);
            buyProb = item probabilities 0;
            sellProb = item probabilities 1;
            action = (if js_gt buyProb sellProb then BUY else SELL);
            confidence = js_mul (js_max buyProb sellProb) (Num 100)
        in Some \<lparr>p_action = action, buyProb = buyProb, sellProb = sellProb, p_confidence = confidence\<rparr>)"

text \<open>
  \<open>initialize\<close>: the network \<open>new SimpleNN(5, 16, 8, 2)\<close>, then the training data loaded
  from storage (\<open>saved\<close>: the stored samples and count, if any).
\<close>

definition initialize ::
  "(nat \<Rightarrow> nat \<Rightarrow> real) \<Rightarrow> (nat \<Rightarrow> nat \<Rightarrow> real) \<Rightarrow> (nat \<Rightarrow> nat \<Rightarrow> real) \<Rightarrow> (nat \<Rightarrow> nat \<Rightarrow> real)
     \<Rightarrow> (nat \<Rightarrow> nat \<Rightarrow> real) \<Rightarrow> (nat \<Rightarrow> nat \<Rightarrow> real) \<Rightarrow> (training_sample list \<times> nat) option
     \<Rightarrow> SimpleNN ai_engine" where
  "initialize r1 r2 r3 r4 r5 r6 saved =
     \<lparr>model = Some (new_SimpleNN 5 16 8 2 r1 r2 r3 r4 r5 r6), isModelReady = True,
      trainingData = (case saved of None \<Rightarrow> [] | Some (d, c) \<Rightarrow> d),
      signalCount = (case saved of None \<Rightarrow> 0 | Some (d, c) \<Rightarrow> c)\<rparr>"

text \<open>
  \<open>addTrainingSample\<close> of \<open>ai-engine.js\<close>. The second component of the result tells
  whether \<open>retrain()\<close> is called. \<open>slice(-500)\<close> keeps the last 500 samples.
\<close>

definition addTrainingSample ::
  "ai_indicators \<Rightarrow> action \<Rightarrow> bool \<Rightarrow> 'm ai_engine \<Rightarrow> 'm ai_engine \<times> bool" where
  "addTrainingSample ind action wasWin eng =
     (let features = normalizeFeatures (i_rsi ind) (i_adx ind) (i_atr ind) (i_williamsR ind) (i_cci ind);
          label = (if wasWin then (if action = BUY then [1, 0] else [0, 1])
                   else (if action = BUY then [0, 1] else [1, 0]));
          pushed = trainingData eng @ [\<lparr>features = features, label = label\<rparr>];
          kept = (if length pushed > MAX_TRAINING_DATA
                  then drop (length pushed - MAX_TRAINING_DATA) pushed else pushed);
          eng' = eng\<lparr>trainingData := kept, signalCount := signalCount eng + 1\<rparr>
      in (eng', signalCount eng' mod RETRAIN_INTERVAL = 0 \<and> length (trainingData eng') \<ge> 20))"

subsection \<open>AI engine (TensorFlow.js variant)\<close>

text \<open>
  The same two functions as the second source file has them; the network itself is
  TensorFlow's and is not modelled.
\<close>

definition tf_RETRAIN_INTERVAL :: nat where
  "tf_RETRAIN_INTERVAL = 50"

definition tf_MAX_TRAINING_DATA :: nat where
  "tf_MAX_TRAINING_DATA = 500"

definition tf_normalizeFeatures :: "real \<Rightarrow> real \<Rightarrow> real \<Rightarrow> real \<Rightarrow> real \<Rightarrow> real list" where
  "tf_normalizeFeatures rsi adx atr williamsR cci =
     [rsi / 100, adx / 100, min (atr * 100) 1, (williamsR + 100) / 100, (cci + 200) / 400]"

definition tf_addTrainingSample ::
  "ai_indicators \<Rightarrow> action \<Rightarrow> bool \<Rightarrow> 'm ai_engine \<Rightarrow> 'm ai_engine \<times> bool" where
  "tf_addTrainingSample ind action wasWin eng =
     (let features = tf_normalizeFeatures (i_rsi ind) (i_adx ind) (i_atr ind) (i_williamsR ind) (i_cci ind);
          label = (if wasWin then (if action = BUY then [1, 0] else [0, 1])
                   else (if action = BUY then [0, 1] else [1, 0]));
          pushed = trainingData eng @ [\<lparr>features = features, label = label\<rparr>];
          kept = (if length pushed > tf_MAX_TRAINING_DATA
                  then drop (length pushed - tf_MAX_TRAINING_DATA) pushed else pushed);
          eng' = eng\<lparr>trainingData := kept, signalCount := signalCount eng + 1\<rparr>
      in (eng', signalCount eng' mod tf_RETRAIN_INTERVAL = 0 \<and> length (trainingData eng') \<ge> 20))"

text \<open>The TensorFlow.js model: an object of the library.\<close>

typedecl tf_model

text \<open>Engines and inputs used as examples below.\<close>

definition mid_draw :: "nat \<Rightarrow> nat \<Rightarrow> real" where
  "mid_draw i j = 0.5"

definition old_sample :: training_sample where
  "old_sample = \<lparr>features = [0.5, 0.3, 0.1, 0.5, 0.5], label = [1, 0]\<rparr>"

definition js_engine_49 :: "SimpleNN ai_engine" where
  "js_engine_49 = \<lparr>model = None, isModelReady = False,
                    trainingData = replicate 20 old_sample, signalCount = 49\<rparr>"

definition tf_engine_49 :: "tf_model ai_engine" where
  "tf_engine_49 = \<lparr>model = None, isModelReady = False,
                    trainingData = replicate 20 old_sample, signalCount = 49\<rparr>"

definition sample_indicators :: ai_indicators where
  "sample_indicators = \<lparr>i_rsi = 50, i_adx = 30, i_atr = 0.001, i_williamsR = - 50, i_cci = 0\<rparr>"

section \<open>Properties of the HMM engine\<close>

subsection \<open>Small lists and the four states\<close>

lemma upt4: "[0..<4] = [0, 1, 2, Suc 2]"
  by (simp add: upt_rec)

lemma reduce_add4: "reduce_add [a, b, c, d] = a + b + c + d"
  by (simp add: reduce_add_def)

lemma len4: "length xs = 4 \<Longrightarrow> \<exists>a b c d. xs = [a, b, c, d]"
  by (auto simp: numeral_eq_Suc length_Suc_conv)

lemma all_regime: "(\<forall>s. P s) = (P TRENDING \<and> P RANGING \<and> P VOLATILE \<and> P CHAOTIC)"
  by (metis regime.exhaust)

lemma STATES_less: "STATES s < 4"
  by (cases s) simp_all

lemma STATE_fold: "foldl f a STATE_NAMES = f (f (f (f a TRENDING) RANGING) VOLATILE) CHAOTIC"
  by (simp add: STATE_NAMES_def)

lemma STATE_map: "map f STATE_NAMES = [f TRENDING, f RANGING, f VOLATILE, f CHAOTIC]"
  by (simp add: STATE_NAMES_def)

subsection \<open>The transition matrix stays row-stochastic\<close>

lemma initial_ok: "tm_ok initialMatrix"
  by (simp add: tm_ok_def initialMatrix_def row_ok_def reduce_add4)

lemma bump_ok:
  assumes "counts_ok t"
  shows "counts_ok (bump t i j)"
proof (cases "i < length t")
  case True
  then have "length (t ! i) = 4"
    using assms by (simp add: counts_ok_def)
  then show ?thesis
    using assms by (auto simp: counts_ok_def bump_def dest!: set_update_subset_insert [THEN subsetD])
next
  case False
  then show ?thesis
    using assms by (simp add: bump_def list_update_beyond)
qed

lemma count_transitions_ok: "counts_ok t \<Longrightarrow> counts_ok (count_transitions h t)"
  by (induction h t rule: count_transitions.induct) (simp_all add: bump_ok)

lemma replicate_ok: "counts_ok (replicate 4 (replicate 4 0))"
  by (simp add: counts_ok_def)

text \<open>
  One row of the blend: the observed frequencies sum to one, so the blended row sums to
  \<open>(1 - \<alpha>) + \<alpha>\<close>; an entry stays positive because the old entry is.
\<close>

lemma blend_row_ok:
  assumes "row_ok row" and "length counts = 4"
  shows "row_ok (blend_row row counts)"
proof -
  obtain a b c d where row: "row = [a, b, c, d]"
    using assms(1) len4 unfolding row_ok_def by blast
  obtain k l m n where counts: "counts = [k, l, m, n]"
    using assms(2) len4 by blast
  have s: "a + b + c + d = 1" and pos: "0 < a" "0 < b" "0 < c" "0 < d"
    using assms(1) by (simp_all add: row_ok_def row reduce_add4)
  show ?thesis
  proof (cases "0 < k + l + m + n")
    case False
    then show ?thesis using assms(1) by (simp add: blend_row_def counts reduce_add4)
  next
    case True
    define S where "S = real (k + l + m + n)"
    define f where "f x y = (1 - alpha) * x + alpha * (real y / S)" for x y
    have S: "0 < S"
      unfolding S_def using True by linarith
    have br: "blend_row row counts = [f a k, f b l, f c m, f d n]"
      using True by (simp add: blend_row_def counts row reduce_add4 upt4 f_def S_def)
    have "real k / S + real l / S + real m / S + real n / S
          = (real k + real l + real m + real n) / S"
      by (simp add: add_divide_distrib)
    also have "real k + real l + real m + real n = S"
      by (simp add: S_def)
    finally have q: "real k / S + real l / S + real m / S + real n / S = 1"
      using S by simp
    have "f a k + f b l + f c m + f d n
          = (1 - alpha) * (a + b + c + d) + alpha * (real k / S + real l / S + real m / S + real n / S)"
      by (simp add: f_def algebra_simps)
    then have sum1: "f a k + f b l + f c m + f d n = 1"
      by (simp add: s q)
    have p: "0 < f x y" if "0 < x" for x y
    proof -
      have "0 \<le> alpha * (real y / S)" and "0 < (1 - alpha) * x"
        using S that by (simp_all add: alpha_def)
      then show ?thesis
        unfolding f_def by linarith
    qed
    show ?thesis
      by (simp add: row_ok_def br reduce_add4 sum1 p pos)
  qed
qed

lemma update_ok:
  assumes "tm_ok (transitionMatrix st)"
  shows "tm_ok (transitionMatrix (updateTransitionMatrix st))"
proof (cases "length (stateHistory st) < 20")
  case True
  then show ?thesis using assms by (simp add: updateTransitionMatrix_def)
next
  case False
  define t where "t = count_transitions (stateHistory st) (replicate 4 (replicate 4 0))"
  have t: "counts_ok t"
    unfolding t_def by (rule count_transitions_ok [OF replicate_ok])
  have rows: "row_ok (transitionMatrix st ! i)" "length (t ! i) = 4" if "i < 4" for i
    using assms t that by (simp_all add: tm_ok_def counts_ok_def)
  have "transitionMatrix (updateTransitionMatrix st)
        = map (\<lambda>i. blend_row (transitionMatrix st ! i) (t ! i)) [0..<4]"
    using False by (simp add: updateTransitionMatrix_def t_def)
  then show ?thesis
    using rows by (simp add: tm_ok_def upt4 blend_row_ok)
qed

lemma detect_tm: "transitionMatrix (snd (detectRegime ind now st)) = transitionMatrix st"
  by (simp add: detectRegime_def Let_def split: prod.splits)

lemma reset_tm: "transitionMatrix (reset st) = transitionMatrix st"
  by (simp add: reset_def)

lemma step_ok: "tm_ok (transitionMatrix st) \<Longrightarrow> tm_ok (transitionMatrix (hmm_step st c))"
  by (cases c) (simp_all add: detect_tm reset_tm update_ok)

lemma foldl_ok: "tm_ok (transitionMatrix st) \<Longrightarrow> tm_ok (transitionMatrix (foldl hmm_step st cs))"
  by (induction cs arbitrary: st) (simp_all add: step_ok)

lemma run_ok: "tm_ok (transitionMatrix (hmm_run cs))"
  unfolding hmm_run_def by (rule foldl_ok) (simp add: hmm_init_def initial_ok)

lemma tm_ok_sums: "tm_ok m \<Longrightarrow> map reduce_add m = [1, 1, 1, 1]"
  by (auto simp: tm_ok_def row_ok_def numeral_eq_Suc length_Suc_conv)

text \<open>
  Claim C3. Starting from the initial transition matrix, after any sequence of calls to
  the engine (\<open>detectRegime\<close>, \<open>updateTransitionMatrix\<close>, \<open>reset\<close>, in any order and
  number), each of the four rows of the transition matrix sums to 1. In the exact
  arithmetic of the model the sum is 1 itself, hence within \<open>1e-6\<close> of 1.
\<close>

theorem transition_rows_sum_to_one:
  "map reduce_add (transitionMatrix (hmm_run calls)) = [1, 1, 1, 1]"
  by (rule tm_ok_sums [OF run_ok])

subsection \<open>Who writes the transition matrix\<close>




subsection \<open>The guard of \<open>detectRegime\<close>\<close>

lemma emission_negative: "calculateEmissionProbabilities (- 5) 0.01 t s = [1 / 11, 8 / 11, 3 / 22, 1 / 22]"
  by (simp add: calculateEmissionProbabilities_def reduce_add4)

lemma detect_negative:
  "detectRegime negative_obs now hmm_init
    = (\<lparr>r_state = RANGING, r_stateName = RANGING, r_confidence = 15000 / 157,
        r_stateProbs = [15 / 628, 150 / 157, 3 / 157, 1 / 628], r_previousState = Some RANGING\<rparr>,
       \<lparr>currentState = RANGING,
        stateHistory = [\<lparr>h_timestamp = now, h_state = RANGING, h_confidence = 15000 / 157,
           h_adx = - 5, h_atrRatio = 0.01, h_probs = [15 / 628, 150 / 157, 3 / 157, 1 / 628]\<rparr>],
        transitionMatrix = initialMatrix\<rparr>)"
  by (simp add: detectRegime_def negative_obs_def emission_negative [simplified] initialMatrix_def hmm_init_def
      STATE_map STATE_fold reduce_add4 select_step_def push_history_def HMM_MAX_HISTORY_def Let_def)

text \<open>
  Claim C1, as stated, fails for a negative reading: with \<open>adx = -5\<close> (and \<open>atr = 0.01\<close>,
  \<open>avgPrice = 1\<close>) on the initial engine, \<open>detectRegime\<close> computes a posterior
  (confidence about 95.5, not the uniform vector) and appends a history entry.
\<close>

theorem soft_fail_negative_counterexample:
  "the_val (o_adx negative_obs) < 0
   \<and> r_stateProbs (fst (detectRegime negative_obs 0 hmm_init)) \<noteq> [0.25, 0.25, 0.25, 0.25]
   \<and> r_confidence (fst (detectRegime negative_obs 0 hmm_init)) \<noteq> 50
   \<and> stateHistory (snd (detectRegime negative_obs 0 hmm_init)) \<noteq> stateHistory hmm_init"
  by (simp add: detect_negative) (simp add: negative_obs_def hmm_init_def)

text \<open>
  Claim C1, amended. For every observation in which \<open>adx\<close>, \<open>atr\<close> or \<open>avgPrice\<close> is
  missing, \<open>NaN\<close> or zero (the values JavaScript's \<open>!\<close> accepts), \<open>detectRegime\<close> returns
  the held state with the uniform vector and confidence 50, and the engine's state (held
  state, history, matrix) is unchanged. The function is total: it never throws.
\<close>

theorem detectRegime_soft_fail:
  assumes "falsy (o_adx ind) \<or> falsy (o_atr ind) \<or> falsy (o_avgPrice ind)"
  shows "detectRegime ind now st =
     (\<lparr>r_state = currentState st, r_stateName = currentState st, r_confidence = 50,
       r_stateProbs = [0.25, 0.25, 0.25, 0.25], r_previousState = None\<rparr>, st)"
  using assms by (simp add: detectRegime_def)

theorem detectRegime_soft_fail_witness:
  "falsy (o_adx zero_obs)
   \<and> detectRegime zero_obs 7 hmm_init =
     (\<lparr>r_state = RANGING, r_stateName = RANGING, r_confidence = 50,
       r_stateProbs = [0.25, 0.25, 0.25, 0.25], r_previousState = None\<rparr>, hmm_init)"
proof -
  have f: "falsy (o_adx zero_obs)"
    by (simp add: zero_obs_def)
  then have "falsy (o_adx zero_obs) \<or> falsy (o_atr zero_obs) \<or> falsy (o_avgPrice zero_obs)"
    by simp
  from detectRegime_soft_fail [OF this, of 7 hmm_init] f show ?thesis
    by (simp add: hmm_init_def)
qed

subsection \<open>The scenario of the spec\<close>

lemma emission_scenario: "calculateEmissionProbabilities 30 0.008 t s = [9 / 14, 5 / 42, 5 / 28, 5 / 84]"
  by (simp add: calculateEmissionProbabilities_def reduce_add4)

lemma detect_scenario:
  "fst (detectRegime scenario now \<lparr>currentState = RANGING, stateHistory = h, transitionMatrix = initialMatrix\<rparr>)
    = \<lparr>r_state = TRENDING, r_stateName = TRENDING, r_confidence = 8100 / 169,
        r_stateProbs = [81 / 169, 75 / 169, 12 / 169, 1 / 169], r_previousState = Some RANGING\<rparr>"
  by (simp add: detectRegime_def scenario_def emission_scenario [simplified] initialMatrix_def
      STATE_map STATE_fold reduce_add4 select_step_def Let_def)

text \<open>
  Claim C4, as stated, fails: from \<open>RANGING\<close> with the default matrix the observation
  \<open>{adx: 30, atr: 0.008, avgPrice: 1.0}\<close> is classified \<open>TRENDING\<close>, but its confidence is
  not above 50.
\<close>

theorem scenario_confidence_counterexample:
  "\<not> (r_state (fst (detectRegime scenario 0 hmm_init)) = TRENDING
      \<and> r_confidence (fst (detectRegime scenario 0 hmm_init)) > 50)"
  by (simp add: hmm_init_def detect_scenario)

text \<open>
  Claim C4, amended. From current state \<open>RANGING\<close> with the default transition matrix
  (whatever the history), the observation \<open>{adx: 30, atr: 0.008, avgPrice: 1.0}\<close> is
  classified \<open>TRENDING\<close> with posterior \<open>81/169\<close> and confidence \<open>8100/169\<close>, about 47.93,
  which is below 50.
\<close>

theorem scenario_classification:
  "r_state (fst (detectRegime scenario now
      \<lparr>currentState = RANGING, stateHistory = h, transitionMatrix = initialMatrix\<rparr>)) = TRENDING
   \<and> r_confidence (fst (detectRegime scenario now
      \<lparr>currentState = RANGING, stateHistory = h, transitionMatrix = initialMatrix\<rparr>)) = 8100 / 169
   \<and> r_confidence (fst (detectRegime scenario now
      \<lparr>currentState = RANGING, stateHistory = h, transitionMatrix = initialMatrix\<rparr>)) < 50"
  by (simp add: detect_scenario)

subsection \<open>The selected state\<close>

lemma emission_pos:
  "\<exists>e0 e1 e2 e3. calculateEmissionProbabilities a r t s = [e0, e1, e2, e3]
      \<and> 0 < e0 \<and> 0 < e1 \<and> 0 < e2 \<and> 0 < e3"
proof -
  define pT where "pT = (if a > 25 then min 1 (a / 50) * 0.9 else (0.1::real))"
  define pR where "pR = (if a < 20 \<and> r < 0.015 then 0.8 else if a < 25 then 0.5 else (0.1::real))"
  define pV where "pV = (if r > 0.015 \<and> r < 0.03 then min 1 (r / 0.03) * 0.85 else (0.15::real))"
  define pC where "pC = (if (a < 15 \<and> r > 0.025) \<or> r > 0.035 then 0.9
                else if r > 0.02 then 0.4 else (0.05::real))"
  have pos: "0 < pT" "0 < pR" "0 < pV" "0 < pC"
    by (simp_all add: pT_def pR_def pV_def pC_def)
  then have sum: "0 < pT + pR + pV + pC"
    by linarith
  have "calculateEmissionProbabilities a r t s
        = [pT / (pT + pR + pV + pC), pR / (pT + pR + pV + pC),
           pV / (pT + pR + pV + pC), pC / (pT + pR + pV + pC)]"
    by (simp add: calculateEmissionProbabilities_def Let_def reduce_add4 pT_def pR_def pV_def pC_def)
  then show ?thesis
    using pos sum by simp
qed

text \<open>
  The loop keeps the first index at which the largest probability stands, as soon as one
  probability is positive.
\<close>

lemma select_first_argmax:
  assumes "foldl (select_step [p0, p1, p2, p3]) (0, cur) STATE_NAMES = (m, b)" and "0 < p0"
  shows "m = [p0, p1, p2, p3] ! STATES b
       \<and> (\<forall>s. [p0, p1, p2, p3] ! STATES s \<le> m)
       \<and> (\<forall>s. [p0, p1, p2, p3] ! STATES s = m \<longrightarrow> STATES b \<le> STATES s)"
  using assms unfolding STATE_fold all_regime
  by (auto simp: select_step_def split: if_splits)

lemma detectRegime_valid:
  assumes valid: "\<not> falsy (o_adx ind)" "\<not> falsy (o_atr ind)" "\<not> falsy (o_avgPrice ind)"
    and ok: "tm_ok (transitionMatrix st)"
  shows "\<exists>p0 p1 p2 p3 m b. 0 < p0
      \<and> foldl (select_step [p0, p1, p2, p3]) (0, currentState st) STATE_NAMES = (m, b)
      \<and> fst (detectRegime ind now st) =
          \<lparr>r_state = b, r_stateName = b, r_confidence = m * 100,
           r_stateProbs = [p0, p1, p2, p3], r_previousState = Some (currentState st)\<rparr>"
proof -
  obtain e0 e1 e2 e3 where e: "calculateEmissionProbabilities (the_val (o_adx ind))
        (the_val (o_atr ind) / the_val (o_avgPrice ind)) (with_default 1 (o_tickFrequency ind))
        (with_default (1 / 10000) (o_spreadEstimate ind)) = [e0, e1, e2, e3]"
    and epos: "0 < e0" "0 < e1" "0 < e2" "0 < e3"
    using emission_pos by blast
  have "row_ok (transitionMatrix st ! STATES (currentState st))"
    using ok STATES_less [of "currentState st"] by (simp add: tm_ok_def)
  then obtain a b c d where row: "transitionMatrix st ! STATES (currentState st) = [a, b, c, d]"
    and rpos: "0 < a" "0 < b" "0 < c" "0 < d"
    using len4 [of "transitionMatrix st ! STATES (currentState st)"] by (auto simp: row_ok_def)
  define S where "S = e0 * a + e1 * b + e2 * c + e3 * d"
  have S: "0 < S"
    unfolding S_def using epos rpos by (simp add: add_pos_pos)
  obtain m best where sel:
    "foldl (select_step [e0 * a / S, e1 * b / S, e2 * c / S, e3 * d / S]) (0, currentState st) STATE_NAMES
       = (m, best)"
    by (cases "foldl (select_step [e0 * a / S, e1 * b / S, e2 * c / S, e3 * d / S]) (0, currentState st) STATE_NAMES")
  have "fst (detectRegime ind now st) =
          \<lparr>r_state = best, r_stateName = best, r_confidence = m * 100,
           r_stateProbs = [e0 * a / S, e1 * b / S, e2 * c / S, e3 * d / S],
           r_previousState = Some (currentState st)\<rparr>"
    using valid sel by (simp add: detectRegime_def e row STATE_map reduce_add4 S_def Let_def)
  moreover have "0 < e0 * a / S"
    using epos rpos S by simp
  ultimately show ?thesis
    using sel by blast
qed

lemma emission_tie: "calculateEmissionProbabilities (250 / 9) 0.008 t s = [5 / 8, 1 / 8, 3 / 16, 1 / 16]"
  by (simp add: calculateEmissionProbabilities_def reduce_add4)

lemma detect_tie:
  "fst (detectRegime tie_obs now \<lparr>currentState = RANGING, stateHistory = h, transitionMatrix = initialMatrix\<rparr>)
    = \<lparr>r_state = TRENDING, r_stateName = TRENDING, r_confidence = 7500 / 163,
        r_stateProbs = [75 / 163, 75 / 163, 12 / 163, 1 / 163], r_previousState = Some RANGING\<rparr>"
  by (simp add: detectRegime_def tie_obs_def emission_tie [simplified] initialMatrix_def
      STATE_map STATE_fold reduce_add4 select_step_def Let_def)

text \<open>
  Claim C5, as stated, fails on a tie: with \<open>adx = 250/9\<close> (\<open>atr = 0.008\<close>, \<open>avgPrice = 1\<close>)
  the initial engine, whose state is \<open>RANGING\<close>, gets the posterior
  \<open>[75/163, 75/163, 12/163, 1/163]\<close>: \<open>TRENDING\<close> and \<open>RANGING\<close> share the maximum, and the
  new state is \<open>TRENDING\<close>, not the current one.
\<close>

theorem tie_keeps_current_counterexample:
  "currentState hmm_init = RANGING
   \<and> r_stateProbs (fst (detectRegime tie_obs 0 hmm_init)) = [75 / 163, 75 / 163, 12 / 163, 1 / 163]
   \<and> r_state (fst (detectRegime tie_obs 0 hmm_init)) = TRENDING"
  by (simp add: hmm_init_def detect_tie)

text \<open>
  Claim C5, amended. For every observation that passes the guard, in every state the
  engine can reach, the new regime is an argmax of the normalized posterior vector; when
  several states share the maximum, it is the first of them in the order \<open>TRENDING\<close>,
  \<open>RANGING\<close>, \<open>VOLATILE\<close>, \<open>CHAOTIC\<close>; the confidence is 100 times the maximum.
\<close>

theorem detectRegime_first_argmax:
  assumes "\<not> falsy (o_adx ind)" "\<not> falsy (o_atr ind)" "\<not> falsy (o_avgPrice ind)"
    and "detectRegime ind now (hmm_run calls) = (res, st')"
  shows "(\<forall>s. r_stateProbs res ! STATES s \<le> r_stateProbs res ! STATES (r_state res))
       \<and> (\<forall>s. r_stateProbs res ! STATES s = r_stateProbs res ! STATES (r_state res)
               \<longrightarrow> STATES (r_state res) \<le> STATES s)
       \<and> r_confidence res = r_stateProbs res ! STATES (r_state res) * 100"
proof -
  obtain p0 p1 p2 p3 m b where pos: "0 < p0"
    and sel: "foldl (select_step [p0, p1, p2, p3]) (0, currentState (hmm_run calls)) STATE_NAMES = (m, b)"
    and det: "fst (detectRegime ind now (hmm_run calls)) =
          \<lparr>r_state = b, r_stateName = b, r_confidence = m * 100,
           r_stateProbs = [p0, p1, p2, p3], r_previousState = Some (currentState (hmm_run calls))\<rparr>"
    using detectRegime_valid [OF assms(1-3) run_ok] by blast
  have res: "r_state res = b" "r_stateProbs res = [p0, p1, p2, p3]" "r_confidence res = m * 100"
    using det assms(4) by simp_all
  from select_first_argmax [OF sel pos] show ?thesis
    unfolding res by blast
qed

theorem detectRegime_first_argmax_witness:
  "\<not> falsy (o_adx tie_obs) \<and> \<not> falsy (o_atr tie_obs) \<and> \<not> falsy (o_avgPrice tie_obs)
   \<and> r_stateProbs (fst (detectRegime tie_obs 0 (hmm_run []))) ! STATES RANGING
       = r_stateProbs (fst (detectRegime tie_obs 0 (hmm_run []))) ! STATES TRENDING
   \<and> r_state (fst (detectRegime tie_obs 0 (hmm_run []))) = TRENDING
   \<and> STATES (r_state (fst (detectRegime tie_obs 0 (hmm_run [])))) \<le> STATES RANGING
   \<and> r_confidence (fst (detectRegime tie_obs 0 (hmm_run [])))
       = r_stateProbs (fst (detectRegime tie_obs 0 (hmm_run []))) ! STATES TRENDING * 100"
proof -
  have v: "\<not> falsy (o_adx tie_obs)" "\<not> falsy (o_atr tie_obs)" "\<not> falsy (o_avgPrice tie_obs)"
    by (simp_all add: tie_obs_def)
  have run: "hmm_run [] = \<lparr>currentState = RANGING, stateHistory = [], transitionMatrix = initialMatrix\<rparr>"
    by (simp add: hmm_run_def hmm_init_def)
  have pair: "detectRegime tie_obs 0 (hmm_run [])
      = (fst (detectRegime tie_obs 0 (hmm_run [])), snd (detectRegime tie_obs 0 (hmm_run [])))"
    by simp
  from detectRegime_first_argmax [OF v pair] v show ?thesis
    by (simp add: run detect_tie)
qed

section \<open>Properties of the RL engine\<close>

subsection \<open>One update\<close>

lemma q_update_exact: "q_update exact q r m = q + 0.1 * (r + 0.9 * m - q)"
  by (simp add: q_update_def exact_def LEARNING_RATE_def DISCOUNT_FACTOR_def)

lemma updateQValue_rows:
  assumes "qTable st regime = Some row" and "qTable st nextRegime = Some nextRow"
  shows "updateQValue rnd regime action reward nextRegime now st
     = Inr (st\<lparr>qTable := (qTable st)(regime \<mapsto> row(action :=
                      newQ_of rnd (row action) reward (js_max (nextRow BUY) (nextRow SELL)))),
               totalUpdates := totalUpdates st + 1,
               rewardHistory :=
                 (let h = rewardHistory st @ [\<lparr>e_timestamp = now, e_regime = regime, e_action = action,
                      e_reward = reward, e_oldQ = Some (row action),
                      e_newQ = newQ_of rnd (row action) reward (js_max (nextRow BUY) (nextRow SELL))\<rparr>]
                  in if length h > RL_MAX_HISTORY then tl h else h)\<rparr>)"
  using assms
  by (simp add: updateQValue_def qTable_get_def prop_get_def prop_set_def to_number_def Let_def)











subsection \<open>Repeated updates with reward 1\<close>

lemma updateQValue_same:
  assumes "qTable st regime = Some row"
  shows "qTable (state_after (updateQValue rnd regime action reward regime now st))
     = (qTable st)(regime \<mapsto> row(action := newQ_of rnd (row action) reward (js_max (row BUY) (row SELL))))"
  unfolding updateQValue_rows [OF assms assms] by (simp add: state_after_def)

lemma initial_row: "initialQTable regime \<noteq> None \<Longrightarrow> initialQTable regime = Some (\<lambda>a. Num 0.5)"
  by (auto simp: initialQTable_def split: if_splits)

lemma repeat_update_table:
  assumes "initialQTable regime \<noteq> None"
  shows "qTable (repeat_update rnd regime action clock n)
     = initialQTable(regime \<mapsto> (\<lambda>a. Num 0.5)(action := Num (qseq rnd n)))"
proof (induction n)
  case 0
  have "(\<lambda>a. Num 0.5)(action := Num (qseq rnd 0)) = (\<lambda>a. Num 0.5)"
    by (simp add: fun_eq_iff)
  then show ?case
    using initial_row [OF assms] by (simp add: rl_init_def fun_upd_idem del: fun_upd_apply)
next
  case (Suc n)
  define row where "row = (\<lambda>a. Num 0.5)(action := Num (qseq rnd n))"
  have m: "js_max (row BUY) (row SELL) = Num (max (qseq rnd n) 0.5)"
    by (cases action) (simp_all add: row_def max.commute)
  have st: "qTable (repeat_update rnd regime action clock n) regime = Some row"
    unfolding Suc row_def by (simp only: fun_upd_same)
  have new: "newQ_of rnd (row action) 1 (js_max (row BUY) (row SELL)) = Num (qseq rnd (Suc n))"
    unfolding m by (simp add: row_def)
  have "qTable (repeat_update rnd regime action clock (Suc n))
      = (qTable (repeat_update rnd regime action clock n))(regime \<mapsto> row(action := Num (qseq rnd (Suc n))))"
    using updateQValue_same [OF st, of rnd action 1 "clock n"] unfolding new by simp
  also have "\<dots> = initialQTable(regime \<mapsto> (\<lambda>a. Num 0.5)(action := Num (qseq rnd (Suc n))))"
    unfolding Suc by (simp add: row_def del: fun_upd_apply)
  finally show ?case .
qed

lemma q_of_repeat:
  assumes "initialQTable regime \<noteq> None"
  shows "q_of (repeat_update rnd regime action clock n) regime action = Some (Num (qseq rnd n))"
  by (simp add: q_of_def repeat_update_table [OF assms])

lemma q_of_repeat_other:
  assumes "initialQTable regime \<noteq> None" "initialQTable r \<noteq> None" "(r, a) \<noteq> (regime, action)"
  shows "q_of (repeat_update rnd regime action clock n) r a = Some (Num 0.5)"
  using assms initial_row [of r] by (auto simp: q_of_def repeat_update_table [OF assms(1)])

lemma qseq_exact: "qseq exact n = 10 - 9.5 * 0.99 ^ n"
proof (induction n)
  case 0
  show ?case by simp
next
  case (Suc n)
  define q where "q = 10 - 9.5 * (0.99::real) ^ n"
  have "(0.99::real) ^ n \<le> 1"
    by (simp add: power_le_one)
  then have m: "max q 0.5 = q"
    by (simp add: q_def)
  have "qseq exact (Suc n) = q + 0.1 * (1 + 0.9 * q - q)"
    unfolding qseq.simps Suc q_def [symmetric] m by (rule q_update_exact)
  also have "\<dots> = 10 - 9.5 * 0.99 ^ Suc n"
    by (simp add: q_def algebra_simps)
  finally show ?case .
qed

lemma qseq_exact_facts:
  "qseq exact n < qseq exact (Suc n)" "qseq exact n < 10" "1 / 2 \<le> qseq exact n"
proof -
  have p: "0 < (0.99::real) ^ n" and l: "(0.99::real) ^ n \<le> 1"
    by (simp_all add: power_le_one)
  have "qseq exact n = 10 - 9.5 * 0.99 ^ n" and "qseq exact (Suc n) = 10 - 9.5 * (0.99 * 0.99 ^ n)"
    by (simp_all only: qseq_exact power_Suc)
  then show "qseq exact n < qseq exact (Suc n)" "qseq exact n < 10" "1 / 2 \<le> qseq exact n"
    using p l by simp_all
qed

subsection \<open>Double precision: the rounding computed on integers\<close>

lemma pow2_pos [simp]: "0 < pow2 e"
  by (simp add: pow2_def)

lemma pow2_nz [simp]: "pow2 e \<noteq> 0"
  by (simp add: pow2_def)

lemma pow2_add: "pow2 (a + b) = pow2 a * pow2 b"
  by (simp add: pow2_def powr_add)

lemma pow2_nat: "pow2 (int n) = 2 ^ n"
  by (simp add: pow2_def powr_realpow)

lemma pow2_diff: "pow2 (a - b) = pow2 a / pow2 b"
  by (simp add: pow2_def powr_diff)

lemma rhe_int [simp]: "round_half_even (of_int j) = j"
  by (simp add: round_half_even_def)

lemma rhe_div:
  assumes "0 < k"
  shows "round_half_even (of_int m / 2 ^ k) =
     (if m mod 2 ^ k < 2 ^ (k - 1) \<or> (m mod 2 ^ k = 2 ^ (k - 1) \<and> even (m div 2 ^ k))
      then m div 2 ^ k else m div 2 ^ k + 1)"
proof -
  define q where "q = m div 2 ^ k"
  define r where "r = m mod 2 ^ k"
  have fl: "\<lfloor>real_of_int m / 2 ^ k\<rfloor> = q"
    using floor_divide_of_int_eq [of m "2 ^ k"] by (simp add: q_def)
  have m: "m = q * 2 ^ k + r"
    unfolding q_def r_def by (rule div_mult_mod_eq [symmetric])
  have k2: "(2::real) ^ k = 2 * 2 ^ (k - 1)" and k2i: "(2::int) ^ k = 2 * 2 ^ (k - 1)"
    using assms by (cases k; simp)+
  have fr: "real_of_int m / 2 ^ k - of_int q = of_int r / 2 ^ k"
    by (simp add: m field_simps)
  define h :: int where "h = 2 ^ (k - 1)"
  have hr: "(2::real) ^ k = 2 * of_int h"
    by (simp add: h_def k2)
  have hpos: "0 < real_of_int h"
    by (simp add: h_def)
  have lt: "of_int r / (2::real) ^ k < 1 / 2 \<longleftrightarrow> r < h"
  proof -
    have "of_int r / (2::real) ^ k < 1 / 2 \<longleftrightarrow> real_of_int r < of_int h"
      unfolding hr using hpos by (simp add: field_simps)
    then show ?thesis
      by (simp only: of_int_less_iff)
  qed
  have gt: "1 / 2 < of_int r / (2::real) ^ k \<longleftrightarrow> h < r"
  proof -
    have "1 / 2 < of_int r / (2::real) ^ k \<longleftrightarrow> real_of_int h < of_int r"
      unfolding hr using hpos by (simp add: field_simps)
    then show ?thesis
      by (simp only: of_int_less_iff)
  qed
  have "round_half_even (of_int m / 2 ^ k) =
     (if r < h then q else if h < r then q + 1 else if even q then q else q + 1)"
    unfolding round_half_even_def Let_def fl fr lt gt ..
  then show ?thesis
    unfolding q_def r_def h_def by auto
qed

lemma floor_log_val:
  assumes "m \<noteq> 0"
  shows "\<lfloor>log 2 \<bar>val (m, e)\<bar>\<rfloor> = bitlen \<bar>m\<bar> - 1 + e"
proof -
  have a: "0 < \<bar>m\<bar>"
    using assms by simp
  have "\<bar>val (m, e)\<bar> = of_int \<bar>m\<bar> * 2 powr of_int e"
    by (simp add: val_def pow2_def abs_mult)
  also have "log 2 \<dots> = log 2 (of_int \<bar>m\<bar>) + of_int e"
    using a by (subst log_mult) simp_all
  finally have "\<lfloor>log 2 \<bar>val (m, e)\<bar>\<rfloor> = \<lfloor>log 2 (of_int \<bar>m\<bar>) + of_int e\<rfloor>"
    by (rule arg_cong)
  also have "\<dots> = \<lfloor>log 2 (of_int \<bar>m\<bar>)\<rfloor> + e"
    by (rule floor_add_int [symmetric])
  also have "\<lfloor>log 2 (of_int \<bar>m\<bar>)\<rfloor> = bitlen \<bar>m\<bar> - 1"
    using a by (simp add: bitlen_alt_def)
  finally show ?thesis .
qed

lemma fl64_val: "fl64 (val (m, e)) = val (f_round (m, e))"
proof (cases "m = 0")
  case True
  then show ?thesis
    by (simp add: fl64_def val_def f_round_def ibitlen_def)
next
  case False
  define n where "n = bitlen \<bar>m\<bar>"
  have n: "0 < n"
    using False by (simp add: n_def bitlen_alt_def)
  have nz: "val (m, e) \<noteq> 0"
    using False by (simp add: val_def)
  have ib: "ibitlen \<bar>m\<bar> = nat n"
    by (simp add: ibitlen_def n_def)
  define E where "E = e + (n - 53)"
  have fle: "\<lfloor>log 2 \<bar>val (m, e)\<bar>\<rfloor> - 52 = E"
    by (simp add: E_def n_def floor_log_val [OF False])
  have fl: "fl64 (val (m, e)) = of_int (round_half_even (val (m, e) / pow2 E)) * pow2 E"
    using nz by (simp add: fl64_def Let_def fle)
  show ?thesis
  proof (cases "n \<le> 53")
    case True
    then have "0 \<le> e - E"
      by (simp add: E_def)
    then obtain j where j: "e - E = int j"
      using nonneg_int_cases by blast
    have "val (m, e) / pow2 E = of_int m * pow2 (e - E)"
      by (simp add: val_def pow2_diff)
    also have "\<dots> = of_int (m * 2 ^ j)"
      by (simp add: j pow2_nat)
    finally have "round_half_even (val (m, e) / pow2 E) = m * 2 ^ j"
      by (simp only: rhe_int)
    then have "fl64 (val (m, e)) = of_int (m * 2 ^ j) * pow2 E"
      by (simp only: fl)
    also have "\<dots> = of_int m * (pow2 (int j) * pow2 E)"
      by (simp add: pow2_nat)
    also have "pow2 (int j) * pow2 E = pow2 e"
    proof -
      have "int j + E = e"
        using j by simp
      then show ?thesis
        unfolding pow2_add [symmetric] by simp
    qed
    finally have "fl64 (val (m, e)) = of_int m * pow2 e" .
    moreover have "nat n \<le> 53"
      using True by simp
    ultimately show ?thesis
      by (simp add: f_round_def ib val_def Let_def)
  next
    case False
    define k where "k = nat n - 53"
    have k: "0 < k" "int k = n - 53"
      using False by (simp_all add: k_def)
    have E: "E = e + int k"
      by (simp add: E_def k)
    have "val (m, e) / pow2 E = of_int m / 2 ^ k"
      by (simp add: val_def E pow2_add pow2_nat)
    then have r: "round_half_even (val (m, e) / pow2 E) =
       (if m mod 2 ^ k < 2 ^ (k - 1) \<or> (m mod 2 ^ k = 2 ^ (k - 1) \<and> even (m div 2 ^ k))
        then m div 2 ^ k else m div 2 ^ k + 1)"
      by (simp only: rhe_div [OF k(1)])
    have md: "m - push_bit k (m div 2 ^ k) = m mod 2 ^ k"
      by (simp only: push_bit_eq_mult minus_div_mult_eq_mod)
    have nk: "\<not> nat n \<le> 53" "nat n - 53 = k"
      using False by (simp_all add: k_def)
    have "f_round (m, e) =
       (if m - push_bit k (drop_bit k m) < push_bit (k - 1) 1
           \<or> (m - push_bit k (drop_bit k m) = push_bit (k - 1) 1 \<and> even (drop_bit k m))
        then drop_bit k m else drop_bit k m + 1, e + int k)"
      by (simp only: f_round_def ib nk Let_def prod.case if_False)
    also have "\<dots> =
       (if m mod 2 ^ k < 2 ^ (k - 1) \<or> (m mod 2 ^ k = 2 ^ (k - 1) \<and> even (m div 2 ^ k))
        then m div 2 ^ k else m div 2 ^ k + 1, e + int k)"
      by (simp only: drop_bit_eq_div md push_bit_of_1)
    finally have fr: "f_round (m, e) =
       (if m mod 2 ^ k < 2 ^ (k - 1) \<or> (m mod 2 ^ k = 2 ^ (k - 1) \<and> even (m div 2 ^ k))
        then m div 2 ^ k else m div 2 ^ k + 1, e + int k)" .
    have "fl64 (val (m, e)) = of_int (round_half_even (val (m, e) / pow2 E)) * pow2 E"
      by (rule fl)
    also have "\<dots> = val (round_half_even (val (m, e) / pow2 E), E)"
      by (simp add: val_def)
    also have "(round_half_even (val (m, e) / pow2 E), E) = f_round (m, e)"
      unfolding r fr by (simp only: E)
    finally show ?thesis .
  qed
qed


lemma val_shift: "e \<le> e1 \<Longrightarrow> val (push_bit (nat (e1 - e)) m, e) = val (m, e1)"
proof -
  assume "e \<le> e1"
  then have "e1 = int (nat (e1 - e)) + e"
    by simp
  then have "pow2 e1 = 2 ^ nat (e1 - e) * pow2 e"
    by (metis pow2_add pow2_nat)
  then show ?thesis
    by (simp add: val_def push_bit_eq_mult)
qed

lemma val_plus:
  "val (m1, e1) + val (m2, e2)
     = val (push_bit (nat (e1 - min e1 e2)) m1 + push_bit (nat (e2 - min e1 e2)) m2, min e1 e2)"
proof -
  have "val (push_bit (nat (e1 - min e1 e2)) m1 + push_bit (nat (e2 - min e1 e2)) m2, min e1 e2)
      = val (push_bit (nat (e1 - min e1 e2)) m1, min e1 e2) + val (push_bit (nat (e2 - min e1 e2)) m2, min e1 e2)"
    by (simp add: val_def algebra_simps)
  then show ?thesis
    by (simp add: val_shift)
qed

lemma val_minus:
  "val (m1, e1) - val (m2, e2)
     = val (push_bit (nat (e1 - min e1 e2)) m1 - push_bit (nat (e2 - min e1 e2)) m2, min e1 e2)"
proof -
  have "val (push_bit (nat (e1 - min e1 e2)) m1 - push_bit (nat (e2 - min e1 e2)) m2, min e1 e2)
      = val (push_bit (nat (e1 - min e1 e2)) m1, min e1 e2) - val (push_bit (nat (e2 - min e1 e2)) m2, min e1 e2)"
    by (simp add: val_def algebra_simps)
  then show ?thesis
    by (simp add: val_shift)
qed

lemma val_times: "val (m1, e1) * val (m2, e2) = val (m1 * m2, e1 + e2)"
  by (simp add: val_def pow2_add)

lemma fl64_add: "fl64 (val a + val b) = val (f_add a b)"
  by (cases a; cases b) (simp add: f_add_def val_plus fl64_val Let_def)

lemma fl64_sub: "fl64 (val a - val b) = val (f_sub a b)"
  by (cases a; cases b) (simp add: f_sub_def val_minus fl64_val Let_def)

lemma fl64_mul: "fl64 (val a * val b) = val (f_mul a b)"
  by (cases a; cases b) (simp add: f_mul_def val_times fl64_val)

lemma f_less_iff: "f_less a b \<longleftrightarrow> val a < val b"
proof (cases a; cases b)
  fix m1 e1 m2 e2
  assume ab: "a = (m1, e1)" "b = (m2, e2)"
  define e where "e = min e1 e2"
  have "val (m1, e1) < val (m2, e2)
     \<longleftrightarrow> val (push_bit (nat (e1 - e)) m1, e) < val (push_bit (nat (e2 - e)) m2, e)"
    by (simp add: val_shift e_def)
  also have "\<dots> \<longleftrightarrow> push_bit (nat (e1 - e)) m1 < push_bit (nat (e2 - e)) m2"
    by (simp add: val_def)
  finally show ?thesis
    by (simp add: ab f_less_def e_def Let_def)
qed

lemma val_f_max: "val (f_max a b) = max (val a) (val b)"
  by (simp add: f_max_def f_less_iff max_def)

lemma floor_log2: "2 powr of_int n \<le> x \<Longrightarrow> x < 2 powr (of_int n + 1) \<Longrightarrow> \<lfloor>log 2 x\<rfloor> = n"
proof -
  assume a: "2 powr of_int n \<le> x" "x < 2 powr (of_int n + 1)"
  have "0 < 2 powr real_of_int n"
    by simp
  then have "0 < x"
    using a(1) by linarith
  then show ?thesis
    using a by (simp add: floor_log_eq_powr_iff)
qed

lemma fl64_tenth: "fl64 (1 / 10) = val c01"
proof -
  have "\<lfloor>log 2 (1 / 10 :: real)\<rfloor> = - 4"
    by (rule floor_log2) (simp_all add: powr_minus field_simps)
  then have "fl64 (1 / 10) = of_int (round_half_even ((1 / 10) / pow2 (- 56))) * pow2 (- 56)"
    by (simp add: fl64_def)
  also have "(1 / 10) / pow2 (- 56) = 72057594037927936 / 10"
    by (simp add: pow2_def powr_minus field_simps)
  also have "round_half_even (72057594037927936 / 10) = 7205759403792794"
    by (simp add: round_half_even_def)
  also have "of_int 7205759403792794 * pow2 (- 56) = of_int 3602879701896397 * pow2 (- 55)"
    using pow2_add [of 1 "- 56"] by (simp add: pow2_def)
  finally show ?thesis
    by (simp add: val_def c01_def)
qed

lemma fl64_nine_tenths: "fl64 (9 / 10) = val c09"
proof -
  have "\<lfloor>log 2 (9 / 10 :: real)\<rfloor> = - 1"
    by (rule floor_log2) (simp_all add: powr_minus field_simps)
  then have "fl64 (9 / 10) = of_int (round_half_even ((9 / 10) / pow2 (- 53))) * pow2 (- 53)"
    by (simp add: fl64_def)
  also have "(9 / 10) / pow2 (- 53) = 81064793292668928 / 10"
    by (simp add: pow2_def powr_minus field_simps)
  also have "round_half_even (81064793292668928 / 10) = 8106479329266893"
    by (simp add: round_half_even_def)
  finally show ?thesis
    by (simp add: val_def c09_def)
qed


lemma bitlen_numeral: "bitlen (numeral n) = int (num_len n)"
proof (induction n)
  case One
  show ?case by (simp add: bitlen_alt_def)
next
  case (Bit0 n)
  have "bitlen (numeral (num.Bit0 n)) = bitlen (numeral n) + 1"
    by (subst compute_bitlen) simp
  then show ?case using Bit0 by simp
next
  case (Bit1 n)
  have "bitlen (numeral (num.Bit1 n)) = bitlen (numeral n) + 1"
    by (subst compute_bitlen) simp
  then show ?case using Bit1 by simp
qed

lemma ibitlen_Pos: "ibitlen (Int.Pos n) = num_len n"
  by (simp add: ibitlen_def bitlen_numeral Int.Pos_def)

lemma ibitlen_0: "ibitlen 0 = 0"
  by (simp add: ibitlen_def)

lemma ibitlen_Neg: "ibitlen (Int.Neg n) = 0"
  by (simp add: ibitlen_def Int.Neg_def bitlen_alt_def)

declare ibitlen_Pos [code] ibitlen_0 [code] ibitlen_Neg [code]

lemma val_one: "val (1, 0) = 1"
  by (simp add: val_def pow2_def)

lemma val_half: "val (1, - 1) = 1 / 2"
  by (simp add: val_def pow2_def powr_minus)

lemma f_update_correct: "q_update fl64 (val q) 1 (max (val q) 0.5) = val (f_update q)"
proof -
  have m: "max (val q) 0.5 = val (f_max q (1, - 1))"
    by (simp add: val_f_max val_half)
  have lr: "fl64 LEARNING_RATE = val c01" and df: "fl64 DISCOUNT_FACTOR = val c09"
    by (simp_all add: LEARNING_RATE_def DISCOUNT_FACTOR_def fl64_tenth fl64_nine_tenths)
  show ?thesis
    unfolding q_update_def m lr df
    unfolding val_one [symmetric]
    by (simp only: fl64_mul fl64_add fl64_sub f_update_def)
qed

subsection \<open>The run of updates in double precision\<close>

lemma qseq_fl64: "qseq fl64 n = val ((f_update ^^ n) (1, - 1))"
proof (induction n)
  case 0
  show ?case by (simp add: val_half)
next
  case (Suc n)
  show ?case
    by (simp add: Suc f_update_correct [simplified])
qed

lemma rising_funpow: "rising n p = Some p' \<Longrightarrow> p' = (f_update ^^ n) p"
proof (induction n arbitrary: p)
  case 0
  then show ?case by simp
next
  case (Suc n)
  then show ?case
    by (simp add: Let_def funpow_swap1 split: if_splits)
qed

lemma rising_strict:
  "rising n p = Some p' \<Longrightarrow> k < n \<Longrightarrow> val ((f_update ^^ k) p) < val ((f_update ^^ Suc k) p)"
proof (induction n arbitrary: p k)
  case 0
  then show ?case by simp
next
  case (Suc n)
  from Suc.prems(1) have less: "f_less p (f_update p)" and rest: "rising n (f_update p) = Some p'"
    by (simp_all add: Let_def split: if_splits)
  show ?case
  proof (cases k)
    case 0
    then show ?thesis
      using less by (simp add: f_less_iff)
  next
    case (Suc j)
    then have "j < n"
      using Suc.prems(2) by simp
    from Suc.IH [OF rest this] show ?thesis
      by (simp add: Suc funpow_swap1)
  qed
qed

lemma rising_append:
  "rising a p = Some p' \<Longrightarrow> rising b p' = Some p'' \<Longrightarrow> rising (a + b) p = Some p''"
proof (induction a arbitrary: p)
  case 0
  then show ?case by simp
next
  case (Suc a)
  then show ?case
    by (simp add: Let_def split: if_splits)
qed

text \<open>
  The first 3196 updates, evaluated in sixteen legs: each update strictly increases the
  value, and the last one reaches \<open>q_stall\<close>, which the next update leaves unchanged.
\<close>

lemma rising_1: "rising 200 (1, - 1) = Some (4912972942866542, - 49)"
  by code_simp

lemma rising_2: "rising 200 (4912972942866542, - 49) = Some (5533499534477421, - 49)"
  by code_simp

lemma rising_3: "rising 200 (5533499534477421, - 49) = Some (5616637485462166, - 49)"
  by code_simp

lemma rising_4: "rising 200 (5616637485462166, - 49) = Some (5627776281103462, - 49)"
  by code_simp

lemma rising_5: "rising 200 (5627776281103462, - 49) = Some (5629268653321790, - 49)"
  by code_simp

lemma rising_6: "rising 200 (5629268653321790, - 49) = Some (5629468600866373, - 49)"
  by code_simp

lemma rising_7: "rising 200 (5629468600866373, - 49) = Some (5629495389773384, - 49)"
  by code_simp

lemma rising_8: "rising 200 (5629495389773384, - 49) = Some (5629498978942435, - 49)"
  by code_simp

lemma rising_9: "rising 200 (5629498978942435, - 49) = Some (5629499459818138, - 49)"
  by code_simp

lemma rising_10: "rising 200 (5629499459818138, - 49) = Some (5629499524245704, - 49)"
  by code_simp

lemma rising_11: "rising 200 (5629499524245704, - 49) = Some (5629499532877685, - 49)"
  by code_simp

lemma rising_12: "rising 200 (5629499532877685, - 49) = Some (5629499534034201, - 49)"
  by code_simp

lemma rising_13: "rising 200 (5629499534034201, - 49) = Some (5629499534189149, - 49)"
  by code_simp

lemma rising_14: "rising 200 (5629499534189149, - 49) = Some (5629499534209909, - 49)"
  by code_simp

lemma rising_15: "rising 200 (5629499534209909, - 49) = Some (5629499534212692, - 49)"
  by code_simp

lemma rising_16: "rising 196 (5629499534212692, - 49) = Some q_stall"
  by code_simp

lemma stall: "f_update q_stall = q_stall"
  by code_simp

lemma rising_all: "rising 3196 (1, - 1) = Some q_stall"
proof -
  note a2 = rising_append [OF rising_1 rising_2]
  note a3 = rising_append [OF a2 rising_3]
  note a4 = rising_append [OF a3 rising_4]
  note a5 = rising_append [OF a4 rising_5]
  note a6 = rising_append [OF a5 rising_6]
  note a7 = rising_append [OF a6 rising_7]
  note a8 = rising_append [OF a7 rising_8]
  note a9 = rising_append [OF a8 rising_9]
  note a10 = rising_append [OF a9 rising_10]
  note a11 = rising_append [OF a10 rising_11]
  note a12 = rising_append [OF a11 rising_12]
  note a13 = rising_append [OF a12 rising_13]
  note a14 = rising_append [OF a13 rising_14]
  note a15 = rising_append [OF a14 rising_15]
  note a16 = rising_append [OF a15 rising_16]
  from a16 show ?thesis
    by simp
qed

lemma funpow_stall: "(f_update ^^ n) q_stall = q_stall"
  by (induction n) (simp_all add: stall)

lemma qseq_stalled:
  assumes "3196 \<le> n"
  shows "qseq fl64 n = val q_stall"
proof -
  obtain j where n: "n = j + 3196"
    using assms le_Suc_ex by (metis add.commute)
  have "(f_update ^^ 3196) (1, - 1) = q_stall"
    using rising_funpow [OF rising_all] by simp
  then have "(f_update ^^ n) (1, - 1) = q_stall"
    unfolding n funpow_add by (simp add: funpow_stall)
  then show ?thesis
    by (simp add: qseq_fl64)
qed

lemma qseq_rising:
  assumes "k < 3196"
  shows "qseq fl64 k < qseq fl64 (Suc k)"
  using rising_strict [OF rising_all assms] by (simp only: qseq_fl64)

lemma qseq_mono:
  assumes "k \<le> n" and "n \<le> 3196"
  shows "qseq fl64 k \<le> qseq fl64 n"
  using assms
proof (induction n)
  case 0
  then show ?case by simp
next
  case (Suc n)
  show ?case
  proof (cases "k = Suc n")
    case True
    then show ?thesis by simp
  next
    case False
    then have "k \<le> n" and "n < 3196"
      using Suc.prems by simp_all
    then have "qseq fl64 k \<le> qseq fl64 n" and "qseq fl64 n < qseq fl64 (Suc n)"
      using Suc.IH qseq_rising by simp_all
    then show ?thesis
      by linarith
  qed
qed

lemma val_q_stall: "val q_stall = 1407374883553267 / 140737488355328"
  by (simp add: val_def q_stall_def pow2_def powr_minus)

lemma qseq_fl64_bounds: "1 / 2 \<le> qseq fl64 n \<and> qseq fl64 n \<le> val q_stall"
proof (cases "n \<le> 3196")
  case True
  have "qseq fl64 0 \<le> qseq fl64 n" and "qseq fl64 n \<le> qseq fl64 3196"
    using True by (simp_all only: qseq_mono le0 order_refl)
  then show ?thesis
    by (simp add: qseq_stalled)
next
  case False
  then show ?thesis
    by (simp add: qseq_stalled val_q_stall)
qed

lemma qseq_fl64_below: "qseq fl64 n < 10"
proof -
  have "qseq fl64 n \<le> val q_stall"
    using qseq_fl64_bounds by blast
  then show ?thesis
    unfolding val_q_stall by linarith
qed

lemma entries_bounded:
  assumes "initialQTable regime \<noteq> None" and "initialQTable r \<noteq> None"
    and "1 / 2 \<le> qseq rnd n" and "qseq rnd n < 10"
  shows "\<exists>x. q_of (repeat_update rnd regime action clock n) r a = Some (Num x)
            \<and> 1 / 2 \<le> x \<and> x < 10"
proof (cases "(r, a) = (regime, action)")
  case True
  then show ?thesis
    using assms(3,4) by (simp add: q_of_repeat [OF assms(1)])
next
  case False
  show ?thesis
    unfolding q_of_repeat_other [OF assms(1,2) False] by (intro exI [of _ "1 / 2"]) simp
qed

text \<open>
  Claim C7, as stated, fails in the arithmetic the code runs in. In double precision,
  after 3196 calls \<open>updateQValue('TRENDING', 'BUY', +1, 'TRENDING')\<close> from the initial table
  the Q-value is \<open>9.999999999999908\<close>, below 10, and call 3197 does not increase it: the
  Q-value is the same number after it.
\<close>

theorem strict_increase_counterexample:
  "q_of (repeat_update fl64 ''TRENDING'' BUY tick 3196) ''TRENDING'' BUY
     = Some (Num (1407374883553267 / 140737488355328))
   \<and> q_of (repeat_update fl64 ''TRENDING'' BUY tick (Suc 3196)) ''TRENDING'' BUY
     = Some (Num (1407374883553267 / 140737488355328))
   \<and> (1407374883553267 / 140737488355328 :: real) < 10"
proof -
  have k: "initialQTable ''TRENDING'' \<noteq> None"
    by (simp add: initialQTable_def)
  have a: "qseq fl64 3196 = val q_stall" "qseq fl64 (Suc 3196) = val q_stall"
    by (rule qseq_stalled, simp)+
  show ?thesis
    unfolding q_of_repeat [OF k] a val_q_stall by simp
qed

text \<open>
  Claim C7, amended. Start from the initial Q-table and repeat
  \<open>updateQValue(regime, action, +1, regime)\<close> for a regime of the table. Every entry of
  the table stays a number. In exact arithmetic the updated Q-value strictly increases
  on every call and stays below 10 (it is \<open>10 - 9.5 * 0.99^n\<close> after \<open>n\<close> calls). In double
  precision it strictly increases on each of the first 3196 calls and is
  \<open>1407374883553267 / 2^47\<close> (\<open>9.999999999999908\<close>) after every later call, 10,000 calls
  included. In both, every Q-value of the table stays between 0.5 and 10.
\<close>

theorem repeated_reward_updates:
  assumes "initialQTable regime \<noteq> None"
  shows "(\<exists>q q'. q_of (repeat_update exact regime action clock n) regime action = Some (Num q)
            \<and> q_of (repeat_update exact regime action clock (Suc n)) regime action = Some (Num q')
            \<and> q < q' \<and> q' < 10)
       \<and> (n < 3196 \<longrightarrow>
            (\<exists>q q'. q_of (repeat_update fl64 regime action clock n) regime action = Some (Num q)
               \<and> q_of (repeat_update fl64 regime action clock (Suc n)) regime action = Some (Num q')
               \<and> q < q'))
       \<and> (3196 \<le> n \<longrightarrow>
            q_of (repeat_update fl64 regime action clock n) regime action
              = Some (Num (1407374883553267 / 140737488355328)))
       \<and> (\<forall>r a. initialQTable r \<noteq> None \<longrightarrow>
            (\<exists>x. q_of (repeat_update exact regime action clock n) r a = Some (Num x)
               \<and> 1 / 2 \<le> x \<and> x < 10)
            \<and> (\<exists>x. q_of (repeat_update fl64 regime action clock n) r a = Some (Num x)
               \<and> 1 / 2 \<le> x \<and> x < 10))"
proof (intro conjI allI impI)
  show "\<exists>q q'. q_of (repeat_update exact regime action clock n) regime action = Some (Num q)
            \<and> q_of (repeat_update exact regime action clock (Suc n)) regime action = Some (Num q')
            \<and> q < q' \<and> q' < 10"
    unfolding q_of_repeat [OF assms] using qseq_exact_facts(1,2) by blast
next
  assume "n < 3196"
  then have "qseq fl64 n < qseq fl64 (Suc n)"
    by (rule qseq_rising)
  then show "\<exists>q q'. q_of (repeat_update fl64 regime action clock n) regime action = Some (Num q)
               \<and> q_of (repeat_update fl64 regime action clock (Suc n)) regime action = Some (Num q')
               \<and> q < q'"
    unfolding q_of_repeat [OF assms] by blast
next
  assume "3196 \<le> n"
  then show "q_of (repeat_update fl64 regime action clock n) regime action
              = Some (Num (1407374883553267 / 140737488355328))"
    unfolding q_of_repeat [OF assms] by (simp only: qseq_stalled val_q_stall)
next
  fix r a
  assume r: "initialQTable r \<noteq> None"
  show "\<exists>x. q_of (repeat_update exact regime action clock n) r a = Some (Num x)
               \<and> 1 / 2 \<le> x \<and> x < 10"
    by (rule entries_bounded [OF assms r qseq_exact_facts(3) qseq_exact_facts(2)])
  have b: "1 / 2 \<le> qseq fl64 n"
    using qseq_fl64_bounds by blast
  show "\<exists>x. q_of (repeat_update fl64 regime action clock n) r a = Some (Num x)
               \<and> 1 / 2 \<le> x \<and> x < 10"
    by (rule entries_bounded [OF assms r b qseq_fl64_below])
qed

theorem repeated_reward_updates_witness:
  "initialQTable ''TRENDING'' \<noteq> None
   \<and> (\<exists>q q'. q_of (repeat_update exact ''TRENDING'' BUY tick 10000) ''TRENDING'' BUY = Some (Num q)
         \<and> q_of (repeat_update exact ''TRENDING'' BUY tick (Suc 10000)) ''TRENDING'' BUY = Some (Num q')
         \<and> q < q' \<and> q' < 10)
   \<and> q_of (repeat_update fl64 ''TRENDING'' BUY tick 10000) ''TRENDING'' BUY
       = Some (Num (1407374883553267 / 140737488355328))
   \<and> (\<exists>q q'. q_of (repeat_update fl64 ''TRENDING'' BUY tick 0) ''TRENDING'' BUY = Some (Num q)
         \<and> q_of (repeat_update fl64 ''TRENDING'' BUY tick (Suc 0)) ''TRENDING'' BUY = Some (Num q')
         \<and> q < q')
   \<and> (\<exists>x. q_of (repeat_update fl64 ''TRENDING'' BUY tick 10000) ''RANGING'' SELL = Some (Num x)
         \<and> 1 / 2 \<le> x \<and> x < 10)"
proof -
  have k: "initialQTable ''TRENDING'' \<noteq> None" "initialQTable ''RANGING'' \<noteq> None"
    by (simp_all add: initialQTable_def)
  have n: "(3196::nat) \<le> 10000" "(0::nat) < 3196"
    by simp_all
  from repeated_reward_updates [OF k(1), of BUY tick 10000]
       repeated_reward_updates [OF k(1), of BUY tick 0] k n
  show ?thesis
    by blast
qed

section \<open>Properties of the backtesting engine\<close>

lemma step_wins: "a_wins (backtest_step acc s) = a_wins acc + (if sig_result s = WIN then 1 else 0)"
  by (simp add: backtest_step_def Let_def)

lemma step_losses: "a_losses (backtest_step acc s) = a_losses acc + (if sig_result s = LOSS then 1 else 0)"
  by (simp add: backtest_step_def Let_def)

lemma fold_wins: "a_wins (foldl backtest_step acc signals) = a_wins acc + count_result WIN signals"
  by (induction signals arbitrary: acc) (simp_all add: count_result_def step_wins)

lemma fold_losses: "a_losses (foldl backtest_step acc signals) = a_losses acc + count_result LOSS signals"
  by (induction signals arbitrary: acc) (simp_all add: count_result_def step_losses)

lemma runBacktest_counts:
  assumes "signals \<noteq> []"
  shows "\<exists>r. fst (runBacktest signals now past) = Inr r
           \<and> wins r = count_result WIN signals \<and> losses r = count_result LOSS signals
           \<and> profitFactor r = (if count_result LOSS signals > 0
                then (real (count_result WIN signals) * 10 * 0.85) / (real (count_result LOSS signals) * 10)
                else 0)"
  using assms
  by (simp add: runBacktest_def Let_def fold_wins fold_losses backtest_start_def tradeSize_def payoutRatio_def)

lemma one_win_result:
  "\<exists>r. fst (runBacktest one_win 0 []) = Inr r \<and> wins r = 1 \<and> losses r = 0 \<and> profitFactor r = 0"
  using runBacktest_counts [of one_win 0 "[]"]
  by (simp add: one_win_def count_result_def)

text \<open>
  Claim C8, as stated, fails for a list without a loss: for one winning signal the
  formula divides by \<open>0 * 10\<close> and has no finite value (\<open>Infinity\<close> in JavaScript), while
  \<open>runBacktest\<close> returns the profit factor 0.
\<close>

theorem profit_factor_no_loss_counterexample:
  "one_win \<noteq> []
   \<and> (case fst (runBacktest one_win 0 []) of
        Inl e \<Rightarrow> False
      | Inr r \<Rightarrow> profitFactor r = 0
          \<and> Some (profitFactor r)
               \<noteq> profit_factor_formula (count_result WIN one_win) (count_result LOSS one_win))"
  using one_win_result
  by (auto simp: one_win_def count_result_def profit_factor_formula_def tradeSize_def)

text \<open>
  Claim C8, amended. For every non-empty list of signals, \<open>runBacktest\<close> returns results
  whose \<open>wins\<close> and \<open>losses\<close> are the numbers of \<open>WIN\<close> and \<open>LOSS\<close> signals; when there is
  at least one loss, \<open>profitFactor\<close> equals \<open>(wins * 10 * 0.85) / (losses * 10)\<close>; when there
  is none, \<open>profitFactor\<close> is 0.
\<close>

theorem profit_factor_of_backtest:
  assumes "signals \<noteq> []"
  shows "\<exists>r. fst (runBacktest signals now past) = Inr r
           \<and> wins r = count_result WIN signals \<and> losses r = count_result LOSS signals
           \<and> (0 < losses r \<longrightarrow> Some (profitFactor r) = profit_factor_formula (wins r) (losses r))
           \<and> (losses r = 0 \<longrightarrow> profitFactor r = 0)"
proof -
  obtain r where r: "fst (runBacktest signals now past) = Inr r"
    "wins r = count_result WIN signals" "losses r = count_result LOSS signals"
    "profitFactor r = (if count_result LOSS signals > 0
                then (real (count_result WIN signals) * 10 * 0.85) / (real (count_result LOSS signals) * 10)
                else 0)"
    using runBacktest_counts [OF assms] by blast
  then show ?thesis
    by (auto simp: profit_factor_formula_def tradeSize_def payoutRatio_def)
qed

theorem profit_factor_of_backtest_witness:
  "win_and_losses \<noteq> []
   \<and> (case fst (runBacktest win_and_losses 0 []) of Inl e \<Rightarrow> False
        | Inr r \<Rightarrow> wins r = 1 \<and> losses r = 2 \<and> profitFactor r = 0.425
             \<and> Some (profitFactor r) = profit_factor_formula 1 2)"
proof -
  have ne: "win_and_losses \<noteq> []"
    by (simp add: win_and_losses_def)
  have c: "count_result WIN win_and_losses = 1" "count_result LOSS win_and_losses = 2"
    by (simp_all add: win_and_losses_def count_result_def)
  from profit_factor_of_backtest [OF ne, of 0 "[]"] ne show ?thesis
    by (auto simp: c profit_factor_formula_def tradeSize_def payoutRatio_def)
qed

section \<open>Properties of the AI engine\<close>

subsection \<open>The forward pass of the pure JavaScript network\<close>

lemma js_add_NaN [simp]: "js_add NaN y = NaN" "js_add x NaN = NaN"
  by (cases x; simp)+

lemma js_mul_NaN [simp]: "js_mul NaN y = NaN" "js_mul x NaN = NaN"
  by (cases x; simp)+

lemma js_sub_NaN [simp]: "js_sub NaN y = NaN" "js_sub x NaN = NaN"
  by (cases x; simp)+

lemma js_div_NaN [simp]: "js_div NaN y = NaN" "js_div x NaN = NaN"
  by (cases x; simp)+

lemma js_max_NaN [simp]: "js_max NaN y = NaN" "js_max x NaN = NaN"
  by (cases x; simp)+

lemma js_gt_NaN [simp]: "js_gt NaN y = False" "js_gt x NaN = False"
  by (cases x; simp)+

lemma relu_NaN [simp]: "relu NaN = NaN"
  by (simp add: relu_def)

text \<open>Once the running sum of a row is NaN it stays NaN.\<close>

lemma foldl_dot_NaN:
  "foldl (\<lambda>sum (val, i). js_add sum (js_mul val (item vector i))) NaN zs = NaN"
  by (induction zs) (simp_all add: case_prod_beta)

lemma foldl_dot_hit:
  assumes "(v, i) \<in> set zs" and "item vector i = NaN"
  shows "foldl (\<lambda>sum (val, i). js_add sum (js_mul val (item vector i))) a zs = NaN"
  using assms
proof (induction zs arbitrary: a)
  case Nil
  then show ?case by simp
next
  case (Cons z zs)
  show ?case
  proof (cases "z = (v, i)")
    case True
    then show ?thesis
      using Cons.prems(2) by (simp add: foldl_dot_NaN)
  next
    case False
    then have "(v, i) \<in> set zs"
      using Cons.prems(1) by simp
    from Cons.IH [OF this Cons.prems(2)] show ?thesis
      by simp
  qed
qed

text \<open>A row longer than the vector reads past its end.\<close>

lemma dot_row_too_long:
  assumes "length vector < length row"
  shows "dot_row row vector = NaN"
proof -
  have "(row ! length vector, length vector) \<in> set (zip row [0..<length row])"
    using assms by (auto simp: set_zip intro!: exI [of _ "length vector"])
  moreover have "item vector (length vector) = NaN"
    by (simp add: item_def)
  ultimately show ?thesis
    unfolding dot_row_def by (rule foldl_dot_hit)
qed

text \<open>A non-empty row against a vector whose first entry is NaN or missing.\<close>

lemma dot_row_first_NaN:
  assumes "row \<noteq> []" and "item vector 0 = NaN"
  shows "dot_row row vector = NaN"
proof -
  have "(row ! 0, 0) \<in> set (zip row [0..<length row])"
    using assms(1) by (auto simp: set_zip intro!: exI [of _ 0])
  then show ?thesis
    unfolding dot_row_def using assms(2) by (rule foldl_dot_hit)
qed

lemma matmul_too_long:
  assumes "\<forall>row \<in> set matrix. length vector < length row"
  shows "matmul matrix vector = replicate (length matrix) NaN"
  using assms by (induction matrix) (simp_all add: matmul_def dot_row_too_long)

lemma matmul_first_NaN:
  assumes "\<forall>row \<in> set matrix. row \<noteq> []" and "item vector 0 = NaN"
  shows "matmul matrix vector = replicate (length matrix) NaN"
  using assms by (induction matrix) (simp_all add: matmul_def dot_row_first_NaN)

lemma mapi_replicate_NaN:
  assumes "\<And>i. f NaN i = NaN"
  shows "mapi f (replicate n NaN) = replicate n NaN"
proof -
  have "map (\<lambda>(v, i). f v i) (zip (replicate n NaN) [0..<n]) = map (\<lambda>i. NaN) [0..<n]"
    by (auto simp: list_eq_iff_nth_eq assms)
  then show ?thesis
    by (simp add: mapi_def map_replicate_trivial)
qed

lemma randomMatrix_shape:
  "length (randomMatrix rows cols rnd) = rows"
  "\<forall>row \<in> set (randomMatrix rows cols rnd). length row = cols"
  by (auto simp: randomMatrix_def)

lemma item_replicate_NaN: "item (replicate n NaN) i = NaN"
  by (simp add: item_def)

lemma softmax_NaN: "softmax (replicate (Suc n) NaN) = replicate (Suc n) NaN"
proof -
  have "foldl js_max NaN xs = NaN" for xs
    by (induction xs) simp_all
  then show ?thesis
    by (simp add: softmax_def Let_def)
qed

lemma forward_new:
  assumes "length input = 5"
  shows "nn_predict (new_SimpleNN 5 16 8 2 r1 r2 r3 r4 r5 r6) input = replicate 8 NaN"
proof -
  define nn where "nn = new_SimpleNN 5 16 8 2 r1 r2 r3 r4 r5 r6"
  have w1: "length (w1 nn) = 5" "\<forall>row \<in> set (w1 nn). length row = 16"
    and w2: "length (w2 nn) = 16" "\<forall>row \<in> set (w2 nn). length row = 8"
    and w3: "length (w3 nn) = 8" "\<forall>row \<in> set (w3 nn). length row = 2"
    by (simp_all add: nn_def new_SimpleNN_def randomMatrix_shape)
  have m1: "matmul (w1 nn) input = replicate 5 NaN"
    using matmul_too_long [of "w1 nn" input] w1 assms by simp
  have h1: "mapi (\<lambda>v i. relu (js_add v (item (b1 nn) i))) (matmul (w1 nn) input) = replicate 5 NaN"
    unfolding m1 by (rule mapi_replicate_NaN) simp
  have ne: "\<forall>row \<in> set (w2 nn). row \<noteq> []" "\<forall>row \<in> set (w3 nn). row \<noteq> []"
    using w2(2) w3(2) by fastforce+
  have m2: "matmul (w2 nn) (replicate 5 NaN) = replicate 16 NaN"
    using matmul_first_NaN [OF ne(1) item_replicate_NaN] w2(1) by simp
  have h2: "mapi (\<lambda>v i. relu (js_add v (item (b2 nn) i))) (replicate 16 NaN) = replicate 16 NaN"
    by (rule mapi_replicate_NaN) simp
  have m3: "matmul (w3 nn) (replicate 16 NaN) = replicate 8 NaN"
    using matmul_first_NaN [OF ne(2) item_replicate_NaN] w3(1) by simp
  have out: "mapi (\<lambda>v i. js_add v (item (b3 nn) i)) (replicate 8 NaN) = replicate 8 NaN"
    by (rule mapi_replicate_NaN) simp
  have "softmax (replicate 8 NaN) = replicate 8 NaN"
    using softmax_NaN [of 7] by (simp add: numeral_eq_Suc)
  then show ?thesis
    unfolding nn_def [symmetric] nn_predict_def forward_def Let_def h1 m2 h2 m3 out by simp
qed

text \<open>
  Claim C2 does not hold of \<open>predict\<close>: \<open>matmul\<close> walks the rows of the weight matrix, which
  is stored with one row per input (\<open>randomMatrix(inputSize, hiddenSize1)\<close>: 5 rows of 16),
  and multiplies entry \<open>i\<close> of a row with \<open>vector[i]\<close>, reading the 5-element input up to
  index 15. Every hidden and output value is \<open>NaN\<close>, whatever the weights and the
  indicators: \<open>buyProb + sellProb\<close> is \<open>NaN\<close>, not 1, the action is always \<open>SELL\<close> and the
  confidence is \<open>NaN\<close>.
\<close>

theorem predict_yields_NaN:
  "predict (initialize r1 r2 r3 r4 r5 r6 saved) ind
     = Some \<lparr>p_action = SELL, buyProb = NaN, sellProb = NaN, p_confidence = NaN\<rparr>"
proof -
  have "length (map Num (normalizeFeatures (i_rsi ind) (i_adx ind) (i_atr ind) (i_williamsR ind) (i_cci ind))) = 5"
    by (simp add: normalizeFeatures_def)
  from forward_new [OF this] show ?thesis
    by (simp add: predict_def initialize_def Let_def item_replicate_NaN)
qed

theorem predict_yields_NaN_witness:
  "predict (initialize mid_draw mid_draw mid_draw mid_draw mid_draw mid_draw None) sample_indicators
     = Some \<lparr>p_action = SELL, buyProb = NaN, sellProb = NaN, p_confidence = NaN\<rparr>
   \<and> isModelReady (initialize mid_draw mid_draw mid_draw mid_draw mid_draw mid_draw None)
   \<and> model (initialize mid_draw mid_draw mid_draw mid_draw mid_draw mid_draw None) \<noteq> None"
  using predict_yields_NaN [of mid_draw mid_draw mid_draw mid_draw mid_draw mid_draw None sample_indicators]
  by (simp add: initialize_def)

subsection \<open>The two variants of \<open>addTrainingSample\<close>\<close>

lemma normalize_same: "tf_normalizeFeatures rsi adx atr williamsR cci = normalizeFeatures rsi adx atr williamsR cci"
  by (simp add: tf_normalizeFeatures_def normalizeFeatures_def)

text \<open>
  Claim C10. From buffers with the same samples and the same counter, the pure
  JavaScript engine and the TensorFlow.js engine compute the same features and store the
  same sample (features and one-hot label), keep the same last 500 samples, count the
  same, and take the same decision to retrain: the new counter is a multiple of 50 and
  the buffer holds at least 20 samples.
\<close>

theorem addTrainingSample_variants_agree:
  assumes "trainingData tf = trainingData js" and "signalCount tf = signalCount js"
  shows "tf_normalizeFeatures (i_rsi ind) (i_adx ind) (i_atr ind) (i_williamsR ind) (i_cci ind)
           = normalizeFeatures (i_rsi ind) (i_adx ind) (i_atr ind) (i_williamsR ind) (i_cci ind)
       \<and> trainingData (fst (tf_addTrainingSample ind action wasWin tf))
           = trainingData (fst (addTrainingSample ind action wasWin js))
       \<and> signalCount (fst (tf_addTrainingSample ind action wasWin tf))
           = signalCount (fst (addTrainingSample ind action wasWin js))
       \<and> snd (tf_addTrainingSample ind action wasWin tf) = snd (addTrainingSample ind action wasWin js)
       \<and> trainingData (fst (addTrainingSample ind action wasWin js))
           = drop (length (trainingData js) + 1 - 500)
               (trainingData js @
                 [\<lparr>features = normalizeFeatures (i_rsi ind) (i_adx ind) (i_atr ind) (i_williamsR ind) (i_cci ind),
                   label = (if wasWin = (action = BUY) then [1, 0] else [0, 1])\<rparr>])
       \<and> snd (addTrainingSample ind action wasWin js)
           = (Suc (signalCount js) mod 50 = 0 \<and> 20 \<le> length (trainingData (fst (addTrainingSample ind action wasWin js))))"
  using assms
  by (auto simp: tf_addTrainingSample_def addTrainingSample_def normalize_same Let_def
      tf_MAX_TRAINING_DATA_def MAX_TRAINING_DATA_def tf_RETRAIN_INTERVAL_def RETRAIN_INTERVAL_def)

theorem addTrainingSample_variants_agree_witness:
  "trainingData tf_engine_49 = trainingData js_engine_49
   \<and> signalCount tf_engine_49 = signalCount js_engine_49
   \<and> trainingData (fst (tf_addTrainingSample sample_indicators BUY False tf_engine_49))
       = replicate 20 old_sample @ [\<lparr>features = [0.5, 0.3, 0.1, 0.5, 0.5], label = [0, 1]\<rparr>]
   \<and> snd (tf_addTrainingSample sample_indicators BUY False tf_engine_49)
   \<and> snd (addTrainingSample sample_indicators BUY False js_engine_49)"
proof -
  have e: "trainingData tf_engine_49 = trainingData js_engine_49"
    "signalCount tf_engine_49 = signalCount js_engine_49"
    by (simp_all add: tf_engine_49_def js_engine_49_def)
  have n: "normalizeFeatures (i_rsi sample_indicators) (i_adx sample_indicators) (i_atr sample_indicators)
      (i_williamsR sample_indicators) (i_cci sample_indicators) = [0.5, 0.3, 0.1, 0.5, 0.5]"
    by (simp add: normalizeFeatures_def sample_indicators_def)
  have l: "length (trainingData js_engine_49) = 20" "signalCount js_engine_49 = 49"
    "trainingData js_engine_49 = replicate 20 old_sample"
    by (simp_all add: js_engine_49_def)
  note c = addTrainingSample_variants_agree [OF e, of sample_indicators BUY False, unfolded n]
  have d: "trainingData (fst (addTrainingSample sample_indicators BUY False js_engine_49))
       = replicate 20 old_sample @ [\<lparr>features = [0.5, 0.3, 0.1, 0.5, 0.5], label = [0, 1]\<rparr>]"
    using c by (simp add: l)
  have t: "snd (addTrainingSample sample_indicators BUY False js_engine_49)"
    using c by (simp add: l d)
  show ?thesis
    using c e d t by simp
qed

end
